theory Spec2Isabelle
  imports Complex_Main
begin

section \<open>JavaScript values used by the server\<close>

text \<open>
  Strings are character lists. Times are milliseconds since the epoch as \<open>Date.now()\<close>
  returns them (integers). A thrown \<open>Error\<close> is the left summand of a sum type and
  carries its message, since callers dispatch on \<open>error.message.includes(...)\<close>.
\<close>

type_synonym 'a js_result = "string + 'a"

fun startsWith :: "string \<Rightarrow> string \<Rightarrow> bool" where
  "startsWith s [] = True"
| "startsWith [] (c # cs) = False"
| "startsWith (x # xs) (c # cs) = (x = c \<and> startsWith xs cs)"

text \<open>\<open>str_includes s sub\<close> is \<open>s.includes(sub)\<close>: \<open>sub\<close> occurs in \<open>s\<close> as a contiguous run.\<close>

fun str_includes :: "string \<Rightarrow> string \<Rightarrow> bool" where
  "str_includes [] sub = (sub = [])"
| "str_includes (x # xs) sub = (startsWith (x # xs) sub \<or> str_includes xs sub)"

text \<open>\<open>toLowerCase\<close> on the ASCII letters (the only letters the matched phrases contain).\<close>

definition toLowerChar :: "char \<Rightarrow> char" where
  "toLowerChar c =
     (case map_of (zip ''ABCDEFGHIJKLMNOPQRSTUVWXYZ'' ''abcdefghijklmnopqrstuvwxyz'') c of
        None \<Rightarrow> c | Some l \<Rightarrow> l)"

definition toLowerCase :: "string \<Rightarrow> string" where
  "toLowerCase s = map toLowerChar s"

definition toUpperChar :: "char \<Rightarrow> char" where
  "toUpperChar c =
     (case map_of (zip ''abcdefghijklmnopqrstuvwxyz'' ''ABCDEFGHIJKLMNOPQRSTUVWXYZ'') c of
        None \<Rightarrow> c | Some u \<Rightarrow> u)"

text \<open>\<open>trim\<close> removes white space at both ends: tab, line feed, vertical tab, form feed,
  carriage return, space and the no-break space.\<close>

definition isWhiteSpace :: "char \<Rightarrow> bool" where
  "isWhiteSpace c = ((of_char c :: nat) \<in> {9, 10, 11, 12, 13, 32, 160})"

definition trim :: "string \<Rightarrow> string" where
  "trim s = rev (dropWhile isWhiteSpace (rev (dropWhile isWhiteSpace s)))"

text \<open>Decimal printing of a natural number, as a template string prints a count.\<close>

fun show_nat :: "nat \<Rightarrow> string" where
  "show_nat n =
     (if n < 10 then [''0123456789'' ! n]
      else show_nat (n div 10) @ [''0123456789'' ! (n mod 10)])"

declare show_nat.simps [simp del]

definition show_int :: "int \<Rightarrow> string" where
  "show_int i = (if i < 0 then CHR ''-'' # show_nat (nat (- i)) else show_nat (nat i))"

text \<open>\<open>s.split(c)\<close> for a one-character separator.\<close>

fun split_acc :: "char \<Rightarrow> string \<Rightarrow> string \<Rightarrow> string list" where
  "split_acc c cur [] = [rev cur]"
| "split_acc c cur (x # xs) = (if x = c then rev cur # split_acc c [] xs else split_acc c (x # cur) xs)"

definition split_on :: "char \<Rightarrow> string \<Rightarrow> string list" where
  "split_on c s = split_acc c [] s"

section \<open>Proxy rotation (utils/proxy-rotation.js)\<close>

record proxy =
  server :: string
  username :: "string option"
  password :: "string option"
  country :: string
  ptype :: string

record failure_entry =
  count :: nat
  lastFailure :: int

record proxy_state =
  proxyUsage :: "string \<rightharpoonup> int"
  proxyFailures :: "string \<rightharpoonup> failure_entry"

record proxy_pools =
  residential :: "proxy list"
  datacenter :: "proxy list"

record proxy_env =
  PROXY_URL :: "string option"
  PROXY_USERNAME :: "string option"
  PROXY_PASSWORD :: "string option"

definition proxyPools :: proxy_pools where
  "proxyPools = \<lparr>
     residential = [
       \<lparr>server = ''proxy1.example.com:8080'', username = Some ''user1'',
        password = Some ''pass1'', country = ''US'', ptype = ''residential''\<rparr>,
       \<lparr>server = ''proxy2.example.com:8080'', username = Some ''user2'',
        password = Some ''pass2'', country = ''UK'', ptype = ''residential''\<rparr>],
     datacenter = [
       \<lparr>server = ''dc-proxy1.example.com:3128'', username = Some ''dcuser1'',
        password = Some ''dcpass1'', country = ''DE'', ptype = ''datacenter''\<rparr>]\<rparr>"

definition MAX_FAILURES_PER_PROXY :: nat where
  "MAX_FAILURES_PER_PROXY = 3"

definition PROXY_COOLDOWN_TIME :: int where
  "PROXY_COOLDOWN_TIME = 30 * 60 * 1000"

text \<open>
  \<open>getEnvironmentProxy\<close>: \<open>if (!proxyUrl) return null\<close>, so an unset and an empty
  \<open>PROXY_URL\<close> both give no override.
\<close>

definition getEnvironmentProxy :: "proxy_env \<Rightarrow> proxy option" where
  "getEnvironmentProxy env =
     (case PROXY_URL env of
        None \<Rightarrow> None
      | Some proxyUrl \<Rightarrow>
          if proxyUrl = [] then None
          else Some \<lparr>server = proxyUrl, username = PROXY_USERNAME env,
                      password = PROXY_PASSWORD env, country = ''Unknown'',
                      ptype = ''environment''\<rparr>)"

text \<open>The template string \<open>`${proxy.server}:${proxy.username}`\<close>; a missing user name prints as \<open>undefined\<close>.\<close>

definition proxyKeyOf :: "proxy \<Rightarrow> string" where
  "proxyKeyOf p = server p @ '':'' @ (case username p of None \<Rightarrow> ''undefined'' | Some u \<Rightarrow> u)"

definition failuresOf :: "(string \<rightharpoonup> failure_entry) \<Rightarrow> string \<Rightarrow> failure_entry" where
  "failuresOf fs k = (case fs k of None \<Rightarrow> \<lparr>count = 0, lastFailure = 0\<rparr> | Some f \<Rightarrow> f)"

text \<open>
  The \<open>filter\<close> callback of \<open>selectHealthyProxy\<close> deletes the failure record of a proxy whose
  cooldown is over, so the failure map is threaded through the traversal.
\<close>

fun filterHealthy ::
  "int \<Rightarrow> (string \<rightharpoonup> failure_entry) \<Rightarrow> proxy list \<Rightarrow> proxy list \<times> (string \<rightharpoonup> failure_entry)" where
  "filterHealthy now fs [] = ([], fs)"
| "filterHealthy now fs (p # ps) =
     (let proxyKey = proxyKeyOf p; failures = failuresOf fs proxyKey in
      if count failures \<ge> MAX_FAILURES_PER_PROXY then
        (let timeSinceFailure = now - lastFailure failures in
         if timeSinceFailure < PROXY_COOLDOWN_TIME then filterHealthy now fs ps
         else (let (hs, fs') = filterHealthy now (fs(proxyKey := None)) ps in (p # hs, fs')))
      else (let (hs, fs') = filterHealthy now fs ps in (p # hs, fs')))"

definition availableProxies :: "proxy_pools \<Rightarrow> string \<Rightarrow> proxy list" where
  "availableProxies pools poolType =
     (if poolType = ''residential'' \<or> poolType = ''any'' then residential pools else []) @
     (if poolType = ''datacenter'' \<or> poolType = ''any'' then datacenter pools else [])"

definition lastUsedOf :: "(string \<rightharpoonup> int) \<Rightarrow> proxy \<Rightarrow> int" where
  "lastUsedOf usage p = (case usage (proxyKeyOf p) of None \<Rightarrow> 0 | Some t \<Rightarrow> t)"

text \<open>
  \<open>selectHealthyProxy(poolType)\<close> at clock reading \<open>now\<close>. The result is the selected proxy
  (\<open>None\<close> for \<open>null\<close>); the two bookkeeping fields \<open>lastUsed\<close> and \<open>proxyKey\<close> that the
  source copies into the returned object are functions of the proxy and the state and are not
  repeated. \<open>Array.prototype.sort\<close> is stable, as \<open>sort_key\<close> is.
\<close>

definition selectHealthyProxy ::
  "proxy_env \<Rightarrow> proxy_pools \<Rightarrow> string \<Rightarrow> int \<Rightarrow> proxy_state \<Rightarrow> proxy option \<times> proxy_state" where
  "selectHealthyProxy env pools poolType now st =
     (case getEnvironmentProxy env of
        Some envProxy \<Rightarrow> (Some envProxy, st)
      | None \<Rightarrow>
         (let available = availableProxies pools poolType in
          if available = [] then (None, st)
          else
            (let (healthyProxies, fs') = filterHealthy now (proxyFailures st) available;
                 st' = st\<lparr>proxyFailures := fs'\<rparr> in
             if healthyProxies = [] then (None, st')
             else
               (let selectedProxy = hd (sort_key (lastUsedOf (proxyUsage st')) healthyProxies) in
                (Some selectedProxy,
                 st'\<lparr>proxyUsage := (proxyUsage st')(proxyKeyOf selectedProxy \<mapsto> now)\<rparr>)))))"

text \<open>\<open>reportProxyFailure(proxy, error)\<close> for a non-null proxy at clock reading \<open>now\<close>.\<close>

definition reportProxyFailure :: "proxy \<Rightarrow> int \<Rightarrow> proxy_state \<Rightarrow> proxy_state" where
  "reportProxyFailure p now st =
     (if server p = [] then st
      else
        (let proxyKey = proxyKeyOf p; currentFailures = failuresOf (proxyFailures st) proxyKey in
         st\<lparr>proxyFailures := (proxyFailures st)(proxyKey \<mapsto>
              \<lparr>count = count currentFailures + 1, lastFailure = now\<rparr>)\<rparr>))"

definition initialProxyState :: proxy_state where
  "initialProxyState = \<lparr>proxyUsage = Map.empty, proxyFailures = Map.empty\<rparr>"

section \<open>Search by scraping (the environment-aware scraper)\<close>

subsection \<open>Rate-limit configuration and request tracker\<close>

record rate_limit_config =
  cfg_maxRequestsPerMinute :: nat
  cfg_minDelayBetweenRequests :: int
  cfg_burstAllowance :: nat

text \<open>The \<open>rateLimit\<close> part of \<open>railwayConfig.getCurrentConfig()\<close>; the argument is \<open>isRailway()\<close>.\<close>

definition getCurrentConfig_rateLimit :: "bool \<Rightarrow> rate_limit_config" where
  "getCurrentConfig_rateLimit isRailway =
     (if isRailway
      then \<lparr>cfg_maxRequestsPerMinute = 1, cfg_minDelayBetweenRequests = 60000, cfg_burstAllowance = 0\<rparr>
      else \<lparr>cfg_maxRequestsPerMinute = 2, cfg_minDelayBetweenRequests = 30000, cfg_burstAllowance = 1\<rparr>)"

record request_tracker =
  requests :: "int list"
  maxRequestsPerMinute :: nat
  minDelayBetweenRequests :: int

definition newRequestTracker :: "rate_limit_config \<Rightarrow> request_tracker" where
  "newRequestTracker envConfig =
     \<lparr>requests = [], maxRequestsPerMinute = cfg_maxRequestsPerMinute envConfig,
      minDelayBetweenRequests = cfg_minDelayBetweenRequests envConfig\<rparr>"

text \<open>\<open>canMakeRequest\<close> prunes the log to the last 60 seconds and then compares its length.\<close>

definition canMakeRequest :: "int \<Rightarrow> request_tracker \<Rightarrow> bool \<times> request_tracker" where
  "canMakeRequest now rt =
     (let oneMinuteAgo = now - 60000;
          rt' = rt\<lparr>requests := filter (\<lambda>timestamp. timestamp > oneMinuteAgo) (requests rt)\<rparr>
      in (length (requests rt') < maxRequestsPerMinute rt', rt'))"

definition getLastRequestTime :: "request_tracker \<Rightarrow> int" where
  "getLastRequestTime rt = (case requests rt of [] \<Rightarrow> 0 | t # ts \<Rightarrow> fold max ts t)"

definition addRequest :: "int \<Rightarrow> request_tracker \<Rightarrow> request_tracker" where
  "addRequest now rt = rt\<lparr>requests := requests rt @ [now]\<rparr>"

definition getWaitTime :: "int \<Rightarrow> request_tracker \<Rightarrow> int" where
  "getWaitTime now rt =
     (let lastRequest = getLastRequestTime rt in
      if lastRequest = 0 then 0
      else (let timeSinceLastRequest = now - lastRequest;
                remainingWait = minDelayBetweenRequests rt - timeSinceLastRequest
            in max 0 remainingWait))"

subsection \<open>Extraction of results from the rendered page\<close>

record search_result =
  title :: string
  link :: string
  snippet :: string
  displayUrl :: string
  position :: nat
  source :: "string option"

text \<open>
  The rendered page as the extraction script sees it: \<open>querySelector\<close> on a container maps a
  selector to the first matching node (its text and its resolved \<open>href\<close>, empty when it has
  none), \<open>querySelectorAll\<close> on the document maps a selector to the matching containers.
\<close>

record node =
  textContent :: string
  href :: string

type_synonym element = "string \<Rightarrow> node option"
type_synonym document = "string \<Rightarrow> element list"

definition containerSelectors :: "string list" where
  "containerSelectors = [''#search .g'', ''#rso .g'', ''.g'', ''[data-sokoban-container]'', ''.tF2Cxc'']"

text \<open>The first selector with a non-empty match wins; when none matches the list stays empty.\<close>

fun findContainers :: "document \<Rightarrow> string list \<Rightarrow> element list" where
  "findContainers doc [] = []"
| "findContainers doc (selector # rest) =
     (if doc selector \<noteq> [] then doc selector else findContainers doc rest)"

fun firstMatch :: "element \<Rightarrow> string list \<Rightarrow> node option" where
  "firstMatch el [] = None"
| "firstMatch el (selector # rest) =
     (case el selector of Some n \<Rightarrow> Some n | None \<Rightarrow> firstMatch el rest)"

text \<open>
  The link loop keeps the last queried element when no selector yields an acceptable link;
  \<open>cur\<close> is the value of \<open>linkElement\<close> before the remaining selectors are tried.
\<close>

fun findLink :: "element \<Rightarrow> string list \<Rightarrow> node option \<Rightarrow> node option" where
  "findLink el [] cur = cur"
| "findLink el (selector # rest) cur =
     (case el selector of
        None \<Rightarrow> findLink el rest None
      | Some linkElement \<Rightarrow>
          if href linkElement \<noteq> [] \<and> \<not> str_includes (href linkElement) ''google.com/search''
          then Some linkElement
          else findLink el rest (Some linkElement))"

definition firstText :: "element \<Rightarrow> string list \<Rightarrow> string" where
  "firstText el selectors = (case firstMatch el selectors of None \<Rightarrow> [] | Some n \<Rightarrow> trim (textContent n))"

text \<open>One pass of the extraction loop body for the container at index \<open>i\<close>.\<close>

definition extractOne :: "nat \<Rightarrow> element \<Rightarrow> search_result option" where
  "extractOne i el =
     (let titleElement = firstMatch el [''h3'', ''.LC20lb'', ''.DKV0Md''];
          linkElement = findLink el [''a[href]'', ''a''] None
      in case (titleElement, linkElement) of
           (Some t, Some l) \<Rightarrow>
             (let title = trim (textContent t);
                  link = href l;
                  snippet = firstText el [''[data-sn=\"snippet\"]'', ''.VwiC3b'', ''.s'', ''.aCOpRe'', ''.yXK7lf''];
                  displayUrl = firstText el [''cite'', ''.tjvcx'', ''.UdQypb'', ''.iUh30'']
              in if title \<noteq> [] \<and> link \<noteq> [] \<and> \<not> str_includes link ''google.com/search''
                 then Some \<lparr>title = title, link = link, snippet = snippet,
                             displayUrl = displayUrl, position = i + 1, source = None\<rparr>
                 else None)
         | _ \<Rightarrow> None)"

fun extractLoop :: "nat \<Rightarrow> element list \<Rightarrow> search_result list" where
  "extractLoop i [] = []"
| "extractLoop i (el # els) =
     (case extractOne i el of
        None \<Rightarrow> extractLoop (i + 1) els
      | Some r \<Rightarrow> r # extractLoop (i + 1) els)"

text \<open>
  The script run by \<open>page.evaluate\<close> in \<open>searchGoogle\<close>: the loop visits the containers at
  indices \<open>0 \<le> i < min (length resultElements) maxResults\<close>.
\<close>

definition extractResults :: "document \<Rightarrow> int \<Rightarrow> search_result list" where
  "extractResults doc maxResults =
     extractLoop 0 (take (nat maxResults) (findContainers doc containerSelectors))"

subsection \<open>One Google search\<close>

text \<open>
  What the browser session of one \<open>searchGoogle\<close> call observes, in the order the source
  consults it. \<open>gs_playwrightError\<close> stands for an exception of a Playwright call that the
  source does not catch (creating the context or the page, typing, evaluating).
\<close>

record google_run =
  gs_launchError :: "string option"
  gs_playwrightError :: "string option"
  gs_navigationSuccess :: bool
  gs_currentUrl :: string
  gs_searchInputFound :: bool
  gs_searchUrl :: string
  gs_pageTitle :: string
  gs_pageContent :: string
  gs_resultsFound :: bool
  gs_finalUrl :: string
  gs_finalTitle :: string
  gs_dom :: document

text \<open>
  The three tests for a block page, as the source writes them: on the landing page, on the
  page reached after the query was submitted, and on the page that shows no result
  container.
\<close>

definition landingPageBlocked :: "google_run \<Rightarrow> bool" where
  "landingPageBlocked run =
     (str_includes (gs_currentUrl run) ''/sorry/'' \<or> str_includes (gs_currentUrl run) ''captcha'')"

definition searchPageBlocked :: "google_run \<Rightarrow> bool" where
  "searchPageBlocked run =
     (str_includes (gs_searchUrl run) ''/sorry/'' \<or>
      str_includes (gs_searchUrl run) ''captcha'' \<or>
      str_includes (toLowerCase (gs_pageTitle run)) ''captcha'' \<or>
      str_includes (toLowerCase (gs_pageContent run)) ''our systems have detected unusual traffic'')"

definition finalPageBlocked :: "google_run \<Rightarrow> bool" where
  "finalPageBlocked run =
     (str_includes (gs_finalUrl run) ''/sorry/'' \<or> str_includes (gs_finalUrl run) ''captcha'' \<or>
      str_includes (toLowerCase (gs_finalTitle run)) ''captcha'')"

definition runGoogleSearch :: "google_run \<Rightarrow> int \<Rightarrow> search_result list js_result" where
  "runGoogleSearch run limit =
     (case gs_launchError run of
        Some m \<Rightarrow> Inl (''Browser launch failed: '' @ m)
      | None \<Rightarrow>
         (case gs_playwrightError run of
            Some m \<Rightarrow> Inl m
          | None \<Rightarrow>
             if \<not> gs_navigationSuccess run then Inl ''Failed to navigate to any Google domain''
             else if landingPageBlocked run
               then Inl (''Google is blocking requests immediately. Current URL: '' @ gs_currentUrl run)
             else if \<not> gs_searchInputFound run
               then Inl ''Could not find visible Google search input field''
             else if searchPageBlocked run
               then Inl (''Google is blocking search results. URL: '' @ gs_searchUrl run)
             else if \<not> gs_resultsFound run then
               (if finalPageBlocked run
                then Inl (''Google is blocking requests. Please try again later. URL: '' @ gs_finalUrl run)
                else Inl ''Search results did not load - no result containers found after multiple attempts'')
             else Inr (extractResults (gs_dom run) limit)))"

definition RATE_LIMIT_MESSAGE :: string where
  "RATE_LIMIT_MESSAGE =
     ''Rate limit exceeded. Too many requests in the last minute. Please wait before making another search.''"

text \<open>
  \<open>searchGoogle(query, limit)\<close> entered at clock reading \<open>now\<close>: the rate-limit gate, the
  wait for the minimum spacing (the timer is taken to fire exactly after \<open>waitTime\<close>), the
  recording of the request, then the browser session.
\<close>

definition searchGoogle ::
  "int \<Rightarrow> request_tracker \<Rightarrow> google_run \<Rightarrow> int \<Rightarrow> search_result list js_result \<times> request_tracker" where
  "searchGoogle now rt run limit =
     (let (allowed, rt1) = canMakeRequest now rt in
      if \<not> allowed then (Inl RATE_LIMIT_MESSAGE, rt1)
      else
        (let waitTime = getWaitTime now rt1;
             recordedAt = (if waitTime > 0 then now + waitTime else now);
             rt2 = addRequest recordedAt rt1
         in (runGoogleSearch run limit, rt2)))"

subsection \<open>The fallback chain Google, then DuckDuckGo\<close>

datatype engine = Google | DuckDuckGo





section \<open>Official search API client (google-api)\<close>

record api_client =
  apiKey :: "string option"
  searchEngineId :: "string option"
  requestCount :: nat
  dailyLimit :: nat
  lastResetDate :: string

text \<open>The constructor reads the two credentials from the environment; \<open>today\<close> is \<open>new Date().toDateString()\<close>.\<close>

definition newGoogleSearchAPI :: "string option \<Rightarrow> string option \<Rightarrow> string \<Rightarrow> api_client" where
  "newGoogleSearchAPI key cx today =
     \<lparr>apiKey = key, searchEngineId = cx, requestCount = 0, dailyLimit = 100, lastResetDate = today\<rparr>"

definition truthy :: "string option \<Rightarrow> bool" where
  "truthy v = (case v of None \<Rightarrow> False | Some s \<Rightarrow> s \<noteq> [])"

definition orElse :: "string option \<Rightarrow> string \<Rightarrow> string" where
  "orElse v d = (case v of None \<Rightarrow> d | Some s \<Rightarrow> if s = [] then d else s)"

definition isConfigured :: "api_client \<Rightarrow> bool" where
  "isConfigured api = (truthy (apiKey api) \<and> truthy (searchEngineId api))"

definition isWithinLimits :: "string \<Rightarrow> api_client \<Rightarrow> bool \<times> api_client" where
  "isWithinLimits today api =
     (let api' = (if lastResetDate api \<noteq> today
                  then api\<lparr>requestCount := 0, lastResetDate := today\<rparr> else api)
      in (requestCount api' < dailyLimit api', api'))"

record api_item =
  it_title :: "string option"
  it_link :: "string option"
  it_snippet :: "string option"
  it_displayLink :: "string option"
  it_htmlTitle :: "string option"
  it_htmlSnippet :: "string option"
  it_formattedUrl :: "string option"
  it_pagemap :: "string option"

record api_error =
  err_message :: string
  err_code :: int

record api_data =
  data_error :: "api_error option"
  data_items :: "api_item list option"

text \<open>
  What \<open>fetch\<close> does with a request: it throws (also when the body is not JSON), answers
  with a status that is not ok, or answers with a JSON body.
\<close>

datatype fetch_outcome =
  FetchThrows string
| HttpNotOk nat string string
| HttpOk api_data

record api_result =
  r_title :: string
  r_url :: string
  r_snippet :: string
  r_displayLink :: string
  r_position :: nat
  r_source :: string
  r_htmlTitle :: "string option"
  r_htmlSnippet :: "string option"
  r_formattedUrl :: "string option"
  r_pagemap :: string

definition formatItem :: "api_item \<Rightarrow> nat \<Rightarrow> api_result" where
  "formatItem item index =
     \<lparr>r_title = orElse (it_title item) [], r_url = orElse (it_link item) [],
      r_snippet = orElse (it_snippet item) [], r_displayLink = orElse (it_displayLink item) [],
      r_position = index + 1, r_source = ''Google API'',
      r_htmlTitle = it_htmlTitle item, r_htmlSnippet = it_htmlSnippet item,
      r_formattedUrl = it_formattedUrl item, r_pagemap = orElse (it_pagemap item) ''{}''\<rparr>"

definition formatResults :: "api_data \<Rightarrow> api_result list" where
  "formatResults apiResponse =
     (case data_items apiResponse of
        None \<Rightarrow> []
      | Some items \<Rightarrow> map (\<lambda>(item, index). formatItem item index) (zip items [0 ..< length items]))"

text \<open>
  The query parameters of a request, by name; their order in the query string is not
  modelled.
\<close>

type_synonym params = "string \<rightharpoonup> string"

text \<open>
  The parameters of the request that \<open>search(query, limit, options)\<close> sends. Object
  spread: a key of \<open>options\<close> replaces the value given before it.
\<close>

definition searchParams :: "api_client \<Rightarrow> string \<Rightarrow> int \<Rightarrow> params \<Rightarrow> params" where
  "searchParams api query limit options =
     (let num = min limit 10 in
      [''key'' \<mapsto> orElse (apiKey api) [], ''cx'' \<mapsto> orElse (searchEngineId api) [],
       ''q'' \<mapsto> query, ''num'' \<mapsto> show_int num] ++ options)"


definition api_search ::
  "string \<Rightarrow> (params \<Rightarrow> fetch_outcome) \<Rightarrow> api_client \<Rightarrow> string \<Rightarrow> int \<Rightarrow> params \<Rightarrow>
     api_result list js_result \<times> api_client" where
  "api_search today fetch api query limit options =
     (if \<not> isConfigured api then
        (Inl ''Google Custom Search API not configured. Set GOOGLE_API_KEY and GOOGLE_SEARCH_ENGINE_ID environment variables.'', api)
      else
        (let (inLimits, api1) = isWithinLimits today api in
         if \<not> inLimits then
           (Inl (''Daily API limit of '' @ show_nat (dailyLimit api1) @ '' requests reached. Resets at midnight.''), api1)
         else
           (case fetch (searchParams api1 query limit options) of
              FetchThrows m \<Rightarrow> (Inl m, api1)
            | HttpNotOk status statusText errorText \<Rightarrow>
                (Inl (''API request failed: '' @ show_nat status @ '' '' @ statusText @ '' - '' @ errorText), api1)
            | HttpOk data \<Rightarrow>
                (let api2 = api1\<lparr>requestCount := requestCount api1 + 1\<rparr> in
                 case data_error data of
                   Some e \<Rightarrow>
                     (Inl (''Google API Error: '' @ err_message e @ '' (Code: '' @ show_int (err_code e) @ '')''), api2)
                 | None \<Rightarrow> (Inr (formatResults data), api2)))))"

subsection \<open>Scraping first, the API as fallback\<close>


datatype 'r found =
  FromScraping "'r list"
| FromApi "api_result list"






section \<open>Adaptive rate limiter (adaptive-rate-limiter)\<close>

text \<open>
  JavaScript numbers are modelled by rationals: delays, timestamps and random draws. The
  comparisons of the source (a quotient of two counts against 0.7 and 0.9, draws against
  0.3, 0.05 and 0.1) come out the same. Products and sums are exact where the source
  rounds to the nearest double, so a value of the model can differ from the program's in its
  last bit; the bounds proved of delays are therefore stated with \<open>\<le>\<close>, which rounding
  to nearest preserves when the bound is itself a double.
\<close>

record human_patterns =
  workingHours_start :: nat
  workingHours_end :: nat
  lunchBreak_start :: nat
  lunchBreak_end :: nat
  weekendSlowdown :: rat
  nightSlowdown :: rat

record rate_limiter =
  arl_requests :: "rat list"
  successHistory :: "rat list"
  failureHistory :: "(rat \<times> string) list"
  currentDelay :: rat
  minDelay :: rat
  maxDelay :: rat
  arl_maxRequestsPerMinute :: nat
  adaptiveEnabled :: bool
  humanPatterns :: human_patterns
  circadianMultipliers :: "(nat \<times> rat) list"

definition newAdaptiveRateLimiter :: rate_limiter where
  "newAdaptiveRateLimiter =
     \<lparr>arl_requests = [], successHistory = [], failureHistory = [],
      currentDelay = 2000, minDelay = 2000, maxDelay = 60000,
      arl_maxRequestsPerMinute = 3, adaptiveEnabled = True,
      humanPatterns = \<lparr>workingHours_start = 9, workingHours_end = 17,
                        lunchBreak_start = 12, lunchBreak_end = 13,
                        weekendSlowdown = 7 / 10, nightSlowdown = 1 / 2\<rparr>,
      circadianMultipliers =
        [(0, 3 / 10), (3, 2 / 10), (6, 5 / 10), (9, 1), (12, 8 / 10), (15, 1), (18, 9 / 10), (21, 6 / 10)]\<rparr>"

definition arl_canMakeRequest :: "rat \<Rightarrow> rate_limiter \<Rightarrow> bool \<times> rate_limiter" where
  "arl_canMakeRequest now rl =
     (let oneMinuteAgo = now - 60000;
          rl' = rl\<lparr>arl_requests := filter (\<lambda>timestamp. timestamp > oneMinuteAgo) (arl_requests rl)\<rparr>
      in (length (arl_requests rl') < arl_maxRequestsPerMinute rl', rl'))"

text \<open>\<open>this.circadianMultipliers[circadianHour] || 1.0\<close>: a missing or zero entry gives 1.\<close>

definition circadianMultiplier :: "rate_limiter \<Rightarrow> nat \<Rightarrow> rat" where
  "circadianMultiplier rl circadianHour =
     (case map_of (circadianMultipliers rl) circadianHour of
        None \<Rightarrow> 1
      | Some m \<Rightarrow> if m = 0 then 1 else m)"

text \<open>
  \<open>calculateHumanDelay\<close> at local hour \<open>hour\<close> and day of week \<open>dayOfWeek\<close> (0 is Sunday);
  \<open>random\<close> is the value of \<open>Math.random()\<close>.
\<close>

definition calculateHumanDelay :: "nat \<Rightarrow> nat \<Rightarrow> rat \<Rightarrow> rate_limiter \<Rightarrow> rat" where
  "calculateHumanDelay hour dayOfWeek random rl =
     (let isWeekend = (dayOfWeek = 0 \<or> dayOfWeek = 6);
          circadianHour = (hour div 3) * 3;
          delay0 = currentDelay rl * circadianMultiplier rl circadianHour;
          delay1 = (if isWeekend then delay0 * (1 / weekendSlowdown (humanPatterns rl)) else delay0);
          isWorkingHours = (hour \<ge> workingHours_start (humanPatterns rl) \<and>
                            hour < workingHours_end (humanPatterns rl));
          isLunchBreak = (hour \<ge> lunchBreak_start (humanPatterns rl) \<and>
                          hour < lunchBreak_end (humanPatterns rl));
          delay2 = (if \<not> isWorkingHours \<and> \<not> isWeekend then delay1 * (3 / 2) else delay1);
          delay3 = (if isLunchBreak then delay2 * 2 else delay2);
          variation = 3 / 10;
          randomFactor = 1 + (random - 1 / 2) * 2 * variation;
          delay4 = delay3 * randomFactor
      in max (minDelay rl) (min (maxDelay rl) delay4))"

text \<open>
  The six \<open>Math.random()\<close> calls of \<open>addMicroDelays\<close>: for each pause one draw decides
  whether it happens and, when it does, a second one gives its length.
\<close>

record micro_draws =
  thinkingChance :: rat
  thinkingAmount :: rat
  coffeeChance :: rat
  coffeeAmount :: rat
  phoneChance :: rat
  phoneAmount :: rat

definition addMicroDelays :: "micro_draws \<Rightarrow> rat" where
  "addMicroDelays d =
     (let microDelays =
        (if thinkingChance d < 3 / 10 then [thinkingAmount d * 5000 + 2000] else []) @
        (if coffeeChance d < 5 / 100 then [coffeeAmount d * 30000 + 60000] else []) @
        (if phoneChance d < 1 / 10 then [phoneAmount d * 15000 + 10000] else [])
      in fold (\<lambda>delay sum. sum + delay) microDelays 0)"

definition getNextDelay :: "nat \<Rightarrow> nat \<Rightarrow> rat \<Rightarrow> micro_draws \<Rightarrow> rate_limiter \<Rightarrow> rat" where
  "getNextDelay hour dayOfWeek random d rl =
     (let baseDelay = calculateHumanDelay hour dayOfWeek random rl;
          microDelays = addMicroDelays d;
          totalDelay = baseDelay + microDelays
      in totalDelay)"

text \<open>\<open>xs.slice(-n)\<close>: the last \<open>n\<close> elements.\<close>

definition sliceLast :: "nat \<Rightarrow> 'a list \<Rightarrow> 'a list" where
  "sliceLast n xs = drop (length xs - n) xs"

text \<open>
  The quotient \<open>recentSuccess.length / (recentSuccess.length + recentFailures.length)\<close>;
  \<open>None\<close> is \<open>NaN\<close> (both histories empty), for which both comparisons are false.
\<close>

definition successRate :: "rate_limiter \<Rightarrow> rat option" where
  "successRate rl =
     (let recentHistory = 10;
          recentSuccess = sliceLast recentHistory (successHistory rl);
          recentFailures = sliceLast recentHistory (failureHistory rl)
      in if length recentSuccess + length recentFailures = 0 then None
         else Some (of_nat (length recentSuccess) /
                    of_nat (length recentSuccess + length recentFailures)))"

definition adaptDelayBasedOnHistory :: "rate_limiter \<Rightarrow> rate_limiter" where
  "adaptDelayBasedOnHistory rl =
     (if \<not> adaptiveEnabled rl then rl
      else case successRate rl of
        None \<Rightarrow> rl
      | Some rate \<Rightarrow>
          if rate < 7 / 10 then rl\<lparr>currentDelay := min (maxDelay rl) (currentDelay rl * (3 / 2))\<rparr>
          else if rate > 9 / 10 \<and> currentDelay rl > minDelay rl
            then rl\<lparr>currentDelay := max (minDelay rl) (currentDelay rl * (8 / 10))\<rparr>
          else rl)"

text \<open>
  \<open>waitForNextRequest()\<close> entered at clock reading \<open>now\<close>. The promise always resolves
  (the result is \<open>Inr ()\<close>); the second component is the time slept, the timer taken to fire
  exactly after the delay.
\<close>

definition waitForNextRequest ::
  "rat \<Rightarrow> nat \<Rightarrow> nat \<Rightarrow> rat \<Rightarrow> micro_draws \<Rightarrow> rate_limiter \<Rightarrow> unit js_result \<times> rat \<times> rate_limiter" where
  "waitForNextRequest now hour dayOfWeek random d rl =
     (let (allowed, rl1) = arl_canMakeRequest now rl in
      if \<not> allowed then (let waitTime = 60000 in (Inr (), waitTime, rl1))
      else
        (let delay = getNextDelay hour dayOfWeek random d rl1;
             slept = (if delay > 0 then delay else 0);
             rl2 = rl1\<lparr>arl_requests := arl_requests rl1 @ [now + slept]\<rparr>
         in (Inr (), slept, adaptDelayBasedOnHistory rl2)))"

definition recordSuccess :: "rat \<Rightarrow> rate_limiter \<Rightarrow> rate_limiter" where
  "recordSuccess now rl =
     (let h = successHistory rl @ [now] in
      rl\<lparr>successHistory := (if length h > 50 then sliceLast 25 h else h)\<rparr>)"

definition recordFailure :: "rat \<Rightarrow> string \<Rightarrow> rate_limiter \<Rightarrow> rate_limiter" where
  "recordFailure now reason rl =
     (let h = failureHistory rl @ [(now, reason)] in
      rl\<lparr>failureHistory := (if length h > 50 then sliceLast 25 h else h)\<rparr>)"

subsection \<open>The enhanced scraper's search (utils/enhanced-scraper.js)\<close>

record enhanced_success =
  es_results :: "api_result list"
  es_searchEngine :: string
  es_source :: string

record enhanced_run =
  er_outcome :: "enhanced_success js_result"
  er_slept :: rat
  er_limiter :: rate_limiter
  er_api :: api_client

text \<open>
  \<open>EnhancedScraper.searchGoogle(query, limit)\<close>: the adaptive wait, then the official API.
\<close>

definition enhanced_searchGoogle ::
  "bool \<Rightarrow> rat \<Rightarrow> nat \<Rightarrow> nat \<Rightarrow> rat \<Rightarrow> micro_draws \<Rightarrow> rate_limiter \<Rightarrow>
     string \<Rightarrow> (params \<Rightarrow> fetch_outcome) \<Rightarrow> api_client \<Rightarrow> string \<Rightarrow> int \<Rightarrow> enhanced_run" where
  "enhanced_searchGoogle useAdaptiveRateLimit now hour dayOfWeek random d rl today fetch api query limit =
     (let (waited, slept, rl') =
            (if useAdaptiveRateLimit then waitForNextRequest now hour dayOfWeek random d rl
             else (Inr (), 0, rl))
      in case waited of
        Inl m \<Rightarrow> \<lparr>er_outcome = Inl m, er_slept = slept,
                   er_limiter = rl', er_api = api\<rparr>
      | Inr _ \<Rightarrow>
          if isConfigured api then
            (let (inLimits, api1) = isWithinLimits today api in
             if inLimits then
               (let (res, api2) = api_search today fetch api1 query limit Map.empty in
                \<lparr>er_outcome =
                   (case res of
                      Inl m \<Rightarrow> Inl m
                    | Inr results \<Rightarrow>
                        Inr \<lparr>es_results = results, es_searchEngine = ''Google Enhanced API'',
                             es_source = ''enhanced_api_scraping''\<rparr>),
                 er_slept = slept, er_limiter = rl', er_api = api2\<rparr>)
             else \<lparr>er_outcome = Inl ''Google API not configured or quota exceeded'',
                   er_slept = slept, er_limiter = rl', er_api = api1\<rparr>)
          else \<lparr>er_outcome = Inl ''Google API not configured or quota exceeded'',
                er_slept = slept, er_limiter = rl', er_api = api\<rparr>)"

subsection \<open>The success rate as the specification words it\<close>

text \<open>
  Not taken from the source: these two definitions follow the specification's sentence
  "compute success rate over the last 10 recorded outcomes", for comparison with
  \<open>successRate\<close> and \<open>adaptDelayBasedOnHistory\<close> above. The recorded outcomes are the
  entries of both histories in the order of their timestamps; the rate is the share of
  successes among the last ten of them.
\<close>

definition spec_successRateOverLastOutcomes :: "rate_limiter \<Rightarrow> rat option" where
  "spec_successRateOverLastOutcomes rl =
     (let outcomes = sort_key fst
            (map (\<lambda>timestamp. (timestamp, True)) (successHistory rl) @
             map (\<lambda>(timestamp, reason). (timestamp, False)) (failureHistory rl));
          recent = sliceLast 10 outcomes
      in if recent = [] then None
         else Some (of_nat (length (filter snd recent)) / of_nat (length recent)))"

definition spec_recordOutcomeAdjustment :: "rate_limiter \<Rightarrow> rate_limiter" where
  "spec_recordOutcomeAdjustment rl =
     (case spec_successRateOverLastOutcomes rl of
        None \<Rightarrow> rl
      | Some rate \<Rightarrow>
          if rate < 7 / 10 then rl\<lparr>currentDelay := min (maxDelay rl) (currentDelay rl * (3 / 2))\<rparr>
          else if rate > 9 / 10 \<and> currentDelay rl > minDelay rl
            then rl\<lparr>currentDelay := max (minDelay rl) (currentDelay rl * (8 / 10))\<rparr>
          else rl)"

section \<open>Content extraction (utils/scraper.js) and the /extract endpoint (server.js)\<close>

text \<open>
  \<open>new URL(url)\<close> is the platform's parser; the model takes it as a function that gives
  the host name and the path of a string it accepts.
\<close>

record parsed_url =
  u_hostname :: string
  u_pathname :: string

record platform_info =
  platform :: string
  requiresAuth :: bool
  publicContentPossible :: bool
  contentType :: "string option"

definition detectPlatform :: "parsed_url \<Rightarrow> platform_info" where
  "detectPlatform urlObj =
     (let hostname = toLowerCase (u_hostname urlObj) in
      if str_includes hostname ''linkedin.com'' then
        (let isCompanyPage = str_includes (u_pathname urlObj) ''/company/'';
             isSchoolPage = str_includes (u_pathname urlObj) ''/school/'';
             isPublicPost = (str_includes (u_pathname urlObj) ''/posts/'' \<and>
                             \<not> str_includes (u_pathname urlObj) ''/in/'');
             isShowcase = str_includes (u_pathname urlObj) ''/showcase/''
         in \<lparr>platform = ''linkedin'', requiresAuth = True,
              publicContentPossible = (isCompanyPage \<or> isSchoolPage \<or> isPublicPost \<or> isShowcase),
              contentType = Some (if isCompanyPage then ''company'' else if isSchoolPage then ''school''
                                  else if isPublicPost then ''post'' else ''profile'')\<rparr>)
      else if str_includes hostname ''facebook.com'' \<or> str_includes hostname ''fb.com'' then
        \<lparr>platform = ''facebook'', requiresAuth = True,
         publicContentPossible = str_includes hostname ''facebook.com/pages'', contentType = None\<rparr>
      else if str_includes hostname ''twitter.com'' \<or> str_includes hostname ''x.com'' then
        \<lparr>platform = ''twitter'', requiresAuth = False, publicContentPossible = True, contentType = None\<rparr>
      else
        \<lparr>platform = ''general'', requiresAuth = False, publicContentPossible = True, contentType = None\<rparr>)"

text \<open>
  The object \<open>extractContent\<close> resolves to. A field the source leaves out is \<open>None\<close>
  (\<open>c_platform\<close>) or \<open>False\<close> (the two flags); the \<open>debug\<close> sub-object is not modelled.
\<close>

record content =
  c_title :: string
  c_markdown :: string
  c_url :: string
  c_extractionType :: string
  c_platform :: "string option"
  c_loginRequired :: bool
  c_isEmpty :: bool

fun joinLines :: "string list \<Rightarrow> string" where
  "joinLines [] = []"
| "joinLines [l] = l"
| "joinLines (l # ls) = l @ CHR 0x0A # joinLines ls"

definition authenticationRequiredMarkdown :: "string \<Rightarrow> string" where
  "authenticationRequiredMarkdown url = joinLines
     [''# LinkedIn Content Not Available'',
      '''',
      ''This LinkedIn URL requires authentication to access content: '' @ url,
      '''',
      ''## Alternatives:'',
      ''- **LinkedIn API**: Use LinkedIn's official API with proper authentication'',
      ''- **Manual Copy**: Copy and paste the content manually'',
      ''- **Public Company Pages**: Some LinkedIn company pages may be publicly accessible'',
      ''- **Professional Networks**: Consider alternative professional networking platforms'',
      '''',
      ''## Note:'',
      ''LinkedIn protects user privacy by requiring login for most profile and post content.'']"

definition authenticationBlockedMarkdown :: "string \<Rightarrow> string \<Rightarrow> nat \<Rightarrow> string \<Rightarrow> string" where
  "authenticationBlockedMarkdown url pageTitle contentLength description = joinLines
     [''# LinkedIn Content Not Available'',
      '''',
      ''This LinkedIn URL requires authentication to access content: '' @ url,
      '''',
      ''## What happened:'',
      ''LinkedIn is blocking automated access and serving minimal content to bots.'',
      '''',
      ''**Page Details:**'',
      ''- Title: \"'' @ pageTitle @ ''\"'',
      ''- Content Length: '' @ show_nat contentLength @ '' characters'',
      ''- Meta Description: \"'' @ description @ ''\"'',
      '''',
      ''## Why LinkedIn blocks this:'',
      ''- **Privacy Protection**: User profiles require login to view'',
      ''- **Terms of Service**: LinkedIn actively prevents automated scraping'',
      ''- **Bot Detection**: Sophisticated systems detect and block automated access'',
      '''',
      ''## Alternatives:'',
      ''- **LinkedIn API**: Use LinkedIn's official API with proper authentication'',
      ''- **Manual Access**: Log in to LinkedIn and view the content manually'',
      ''- **Public Company Pages**: Try LinkedIn company pages which may be publicly accessible'',
      ''- **Alternative Sources**: Search for the person/company on other professional networks'',
      ''- **Google Search**: Search for \"'' @ last (split_on CHR ''/'' url) @ ''\" on Google for alternative sources'',
      '''',
      ''## Technical Note:'',
      ''LinkedIn serves different content to bots vs. authenticated users to protect privacy and comply with their Terms of Service.'']"

definition emptyContentMarkdown :: "string \<Rightarrow> string \<Rightarrow> string" where
  "emptyContentMarkdown url platformName = joinLines
     [''# Content Not Available'',
      '''',
      ''The requested content from '' @ url @ '' could not be extracted.'',
      '''',
      ''## Possible reasons:'',
      ''- **Authentication Required**: The platform requires login to view content'',
      ''- **Bot Detection**: The website is blocking automated access'',
      ''- **JavaScript-heavy Content**: Content loads dynamically and wasn't captured'',
      ''- **Rate Limiting**: Too many requests to the platform'',
      '''',
      ''## What you can do:'',
      ''- **Manual Access**: Visit the URL directly in your browser'',
      ''- **Alternative Sources**: Search for the same content on other platforms'',
      ''- **API Access**: Use official APIs if available'',
      ''- **Try Later**: Wait and retry the request'',
      '''',
      ''## Platform: '' @ platformName,
      ''Original URL: '' @ url]"

definition loginIndicators :: "string list" where
  "loginIndicators =
     [''sign in'', ''log in'', ''login'', ''authentication required'', ''please sign in'',
      ''member login'', ''join linkedin'', ''this content is not available'', ''linkedin login'',
      ''access linkedin'']"

text \<open>
  What the page shows once \<open>page.goto\<close> has returned. \<open>pg_cleanMarkdown\<close> is the outcome
  of the extraction step as a function of the two request flags \<open>fullPage\<close> and
  \<open>includeImages\<close>: either the Markdown of the selected fragment after conversion and
  clean-up (fragment selection and image rewriting run inside the browser and the converter
  is an external library), or the message of the error that \<open>page.evaluate\<close> throws. In
  utils/scraper.js the extraction script is passed three separate arguments, which
  Playwright refuses with \<open>Too many arguments\<close>: there the step always throws. The
  environment-aware variant of the scraper passes one object and the step can succeed.
\<close>

record page_view =
  pg_content :: string
  pg_title :: string
  pg_bodyInnerText :: "string option"
  pg_metaDescription :: string
  pg_locationHref :: string
  pg_cleanMarkdown :: "bool \<Rightarrow> bool \<Rightarrow> string js_result"

record browser_env =
  be_launchError :: "string option"
  be_goto :: "page_view js_result"

record browser_log =
  launches :: nat
  navigations :: nat

definition capitalize :: "string \<Rightarrow> string" where
  "capitalize s = (case s of [] \<Rightarrow> [] | c # cs \<Rightarrow> toUpperChar c # cs)"

text \<open>
  \<open>extractContent(url, fullPage, includeImages)\<close>, with the count of browser launches and
  page navigations it performed.
\<close>

definition extractContent ::
  "(string \<Rightarrow> parsed_url option) \<Rightarrow> browser_env \<Rightarrow> string \<Rightarrow> bool \<Rightarrow> bool \<Rightarrow>
     content js_result \<times> browser_log" where
  "extractContent parseURL env url fullPage includeImages =
     (case parseURL url of
        None \<Rightarrow> (Inl ''Invalid URL'', \<lparr>launches = 0, navigations = 0\<rparr>)
      | Some urlObj \<Rightarrow>
         (let platformInfo = detectPlatform urlObj in
          if platform platformInfo = ''linkedin'' \<and> requiresAuth platformInfo \<and>
             \<not> publicContentPossible platformInfo
          then
            (Inr \<lparr>c_title = ''LinkedIn Content Requires Authentication'',
                  c_markdown = authenticationRequiredMarkdown url,
                  c_url = url, c_extractionType = ''authentication-required'',
                  c_platform = Some ''linkedin'', c_loginRequired = False, c_isEmpty = False\<rparr>,
             \<lparr>launches = 0, navigations = 0\<rparr>)
          else
            (case be_launchError env of
               Some m \<Rightarrow> (Inl m, \<lparr>launches = 1, navigations = 0\<rparr>)
             | None \<Rightarrow>
                (case be_goto env of
                   Inl m \<Rightarrow> (Inl m, \<lparr>launches = 1, navigations = 1\<rparr>)
                 | Inr page \<Rightarrow>
                    (let pageContent = pg_content page;
                         pageTitle = pg_title page;
                         hasLoginRequirement =
                           list_ex (\<lambda>indicator. str_includes (toLowerCase pageContent) (toLowerCase indicator))
                             loginIndicators;
                         bodyText = (case pg_bodyInnerText page of None \<Rightarrow> [] | Some t \<Rightarrow> trim t);
                         contentLength = length bodyText;
                         isEmptyContent = (contentLength < 100);
                         isLinkedInTitle = (str_includes (toLowerCase pageTitle) ''linkedin'' \<or> pageTitle = [])
                     in
                     if platform platformInfo = ''linkedin'' \<and>
                        (hasLoginRequirement \<or> isEmptyContent \<or> isLinkedInTitle \<or> contentLength < 200)
                     then
                       (Inr \<lparr>c_title = (if pageTitle \<noteq> [] then pageTitle
                                         else ''LinkedIn Content Requires Authentication''),
                             c_markdown = authenticationBlockedMarkdown url pageTitle contentLength
                                            (pg_metaDescription page),
                             c_url = url, c_extractionType = ''authentication-blocked'',
                             c_platform = Some ''linkedin'', c_loginRequired = True, c_isEmpty = False\<rparr>,
                        \<lparr>launches = 1, navigations = 1\<rparr>)
                     else
                       (case pg_cleanMarkdown page fullPage includeImages of
                          Inl m \<Rightarrow> (Inl m, \<lparr>launches = 1, navigations = 1\<rparr>)
                        | Inr cleanMarkdown \<Rightarrow>
                           if length cleanMarkdown < 50 \<and> platform platformInfo \<noteq> ''general'' then
                             (Inr \<lparr>c_title = (if pg_title page \<noteq> [] then pg_title page
                                               else capitalize (platform platformInfo) @ '' Content Not Available''),
                                   c_markdown = emptyContentMarkdown url (platform platformInfo),
                                   c_url = pg_locationHref page, c_extractionType = ''empty-content'',
                                   c_platform = Some (platform platformInfo),
                                   c_loginRequired = False, c_isEmpty = True\<rparr>,
                              \<lparr>launches = 1, navigations = 1\<rparr>)
                           else
                             (Inr \<lparr>c_title = pg_title page, c_markdown = cleanMarkdown,
                                   c_url = pg_locationHref page,
                                   c_extractionType = (if fullPage then ''full-page'' else ''main-content''),
                                   c_platform = None, c_loginRequired = False, c_isEmpty = False\<rparr>,
                              \<lparr>launches = 1, navigations = 1\<rparr>)))))))"

record suggestions =
  apiUrl :: "string option"
  publicAlternatives :: "string list"
  tools :: "string list"

definition getAlternativeSuggestions :: "string \<Rightarrow> string \<Rightarrow> suggestions" where
  "getAlternativeSuggestions url platformName =
     (if platformName = ''linkedin'' then
        \<lparr>apiUrl = Some ''https://docs.microsoft.com/en-us/linkedin/'',
         publicAlternatives =
           [''Try LinkedIn company pages (linkedin.com/company/company-name)'',
            ''Look for the company's official website'',
            ''Check for press releases or news articles about the content'',
            ''Use LinkedIn's RSS feeds for public posts''],
         tools =
           [''LinkedIn API with proper authentication'',
            ''Browser automation with logged-in session'',
            ''Manual copy-paste from authenticated session'']\<rparr>
      else if platformName = ''facebook'' then
        \<lparr>apiUrl = Some ''https://developers.facebook.com/docs/graph-api/'',
         publicAlternatives =
           [''Try Facebook business pages'',
            ''Look for the organization's official website'',
            ''Check for cross-posted content on other platforms''],
         tools = [''Facebook Graph API'', ''Official Facebook business tools'']\<rparr>
      else if platformName = ''twitter'' then
        \<lparr>apiUrl = Some ''https://developer.twitter.com/en/docs/twitter-api'',
         publicAlternatives =
           [''Most Twitter content should be publicly accessible'',
            ''Try accessing the profile directly''],
         tools = [''Twitter API v2'', ''Direct URL access usually works'']\<rparr>
      else
        \<lparr>apiUrl = None,
         publicAlternatives = [''Try accessing the content directly in a browser''],
         tools = [''Manual copy-paste'']\<rparr>)"

record extract_query =
  q_url :: "string option"
  q_full :: "string option"
  q_images :: "string option"

datatype response_body =
  ErrorBody string "string option"
| ContentBody string content string "suggestions option" "string option"

record http_response =
  status :: nat
  body :: response_body

text \<open>
  The handler of \<open>GET /extract\<close>; \<open>extractedAt\<close> is the ISO time stamp of the response.
  \<open>ErrorBody error message\<close> is \<open>{error, message}\<close> and
  \<open>ContentBody url content extractedAt suggestions message\<close> is the success-shaped body.
\<close>

definition extract_handler ::
  "(string \<Rightarrow> parsed_url option) \<Rightarrow> browser_env \<Rightarrow> string \<Rightarrow> extract_query \<Rightarrow> http_response" where
  "extract_handler parseURL env extractedAt query =
     (if \<not> truthy (q_url query) then
        \<lparr>status = 400, body = ErrorBody ''URL parameter is required'' None\<rparr>
      else
        (let url = orElse (q_url query) [] in
         if parseURL url = None then
           \<lparr>status = 400, body = ErrorBody ''Invalid URL format'' None\<rparr>
         else
           (let fullPage = (q_full query = Some ''true'' \<or> q_full query = Some ''1'');
                includeImages = (q_images query \<noteq> Some ''false'' \<and> q_images query \<noteq> Some ''0'')
            in case fst (extractContent parseURL env url fullPage includeImages) of
                 Inl m \<Rightarrow> \<lparr>status = 500, body = ErrorBody ''Failed to extract content'' (Some m)\<rparr>
               | Inr content \<Rightarrow>
                   if truthy (c_platform content) \<and> (c_loginRequired content \<or> c_isEmpty content) then
                     (let suggestions = getAlternativeSuggestions url (orElse (c_platform content) []);
                          message =
                            (if c_isEmpty content
                             then ''Content extraction failed: '' @ orElse (c_platform content) [] @
                                  '' returned empty content (likely blocked)''
                             else ''Content extraction blocked: '' @ orElse (c_platform content) [] @
                                  '' requires authentication'')
                      in \<lparr>status = 422,
                          body = ContentBody url content extractedAt (Some suggestions) (Some message)\<rparr>)
                   else \<lparr>status = 200, body = ContentBody url content extractedAt None None\<rparr>)))"

section \<open>Concrete scenarios\<close>

text \<open>Inputs at which the theorems below are instantiated.\<close>

definition proxy1 :: proxy where
  "proxy1 = \<lparr>server = ''proxy1.example.com:8080'', username = Some ''user1'',
        password = Some ''pass1'', country = ''US'', ptype = ''residential''\<rparr>"

definition noProxyEnv :: proxy_env where
  "noProxyEnv = \<lparr>PROXY_URL = None, PROXY_USERNAME = None, PROXY_PASSWORD = None\<rparr>"

definition someProxyEnv :: proxy_env where
  "someProxyEnv = \<lparr>PROXY_URL = Some ''http://gateway.example.com:8000'',
     PROXY_USERNAME = Some ''envuser'', PROXY_PASSWORD = Some ''envpass''\<rparr>"

definition envProxy :: proxy where
  "envProxy = \<lparr>server = ''http://gateway.example.com:8000'', username = Some ''envuser'',
     password = Some ''envpass'', country = ''Unknown'', ptype = ''environment''\<rparr>"

definition failedThrice :: "proxy \<Rightarrow> proxy_state" where
  "failedThrice p = reportProxyFailure p 3000 (reportProxyFailure p 2000
     (reportProxyFailure p 1000 initialProxyState))"





text \<open>An adaptive limiter that has recorded three requests within the last minute, the
  configured API client, and a reply of the API with one item.\<close>

definition busyLimiter :: rate_limiter where
  "busyLimiter = newAdaptiveRateLimiter\<lparr>arl_requests := [1000, 2000, 3000]\<rparr>"

definition quietDraws :: micro_draws where
  "quietDraws = \<lparr>thinkingChance = 9 / 10, thinkingAmount = 0, coffeeChance = 9 / 10,
     coffeeAmount = 0, phoneChance = 9 / 10, phoneAmount = 0\<rparr>"

definition configuredApi :: api_client where
  "configuredApi = newGoogleSearchAPI (Some ''key'') (Some ''engine'') ''Mon Jan 01 2024''"

definition oneItem :: api_item where
  "oneItem = \<lparr>it_title = Some ''Example'', it_link = Some ''https://example.com/'',
     it_snippet = Some ''An example'', it_displayLink = Some ''example.com'',
     it_htmlTitle = None, it_htmlSnippet = None, it_formattedUrl = None, it_pagemap = None\<rparr>"

definition oneItemReply :: "params \<Rightarrow> fetch_outcome" where
  "oneItemReply request = HttpOk \<lparr>data_error = None, data_items = Some [oneItem]\<rparr>"

definition emptyRun :: google_run where
  "emptyRun = \<lparr>gs_launchError = None, gs_playwrightError = None, gs_navigationSuccess = True,
     gs_currentUrl = ''https://www.google.com/'', gs_searchInputFound = True,
     gs_searchUrl = ''https://www.google.com/search?q=x'', gs_pageTitle = ''x - Google Search'',
     gs_pageContent = ''results'', gs_resultsFound = True,
     gs_finalUrl = ''https://www.google.com/search?q=x'', gs_finalTitle = ''x - Google Search'',
     gs_dom = (\<lambda>selector. [])\<rparr>"










text \<open>
  A URL parser for the scenarios: it knows three addresses and rejects everything else.
\<close>

definition demoParseURL :: "string \<Rightarrow> parsed_url option" where
  "demoParseURL url =
     (if url = ''https://linkedin.com/in/username''
        then Some \<lparr>u_hostname = ''linkedin.com'', u_pathname = ''/in/username''\<rparr>
      else if url = ''https://www.facebook.com/someone''
        then Some \<lparr>u_hostname = ''www.facebook.com'', u_pathname = ''/someone''\<rparr>
      else if url = ''https://www.linkedin.com/company/acme/''
        then Some \<lparr>u_hostname = ''www.linkedin.com'', u_pathname = ''/company/acme/''\<rparr>
      else None)"

text \<open>A login page with little text as utils/scraper.js sees it, and a browser that
  reaches it.\<close>

definition loginPage :: page_view where
  "loginPage = \<lparr>pg_content = ''<html><body>Sign in to continue</body></html>'',
     pg_title = ''Sign Up'', pg_bodyInnerText = Some ''Sign in to continue'',
     pg_metaDescription = [], pg_locationHref = ''https://www.linkedin.com/authwall'',
     pg_cleanMarkdown = (\<lambda>fullPage includeImages.
       Inl ''page.evaluate: Too many arguments. If you need to pass more than 1 argument to the function wrap them in an object.'')\<rparr>"

definition workingBrowser :: browser_env where
  "workingBrowser = \<lparr>be_launchError = None, be_goto = Inr loginPage\<rparr>"

definition profileQuery :: extract_query where
  "profileQuery = \<lparr>q_url = Some ''https://linkedin.com/in/username'', q_full = None, q_images = None\<rparr>"

definition companyQuery :: extract_query where
  "companyQuery = \<lparr>q_url = Some ''https://www.linkedin.com/company/acme/'', q_full = None, q_images = None\<rparr>"

definition facebookQuery :: extract_query where
  "facebookQuery = \<lparr>q_url = Some ''https://www.facebook.com/someone'', q_full = None, q_images = None\<rparr>"

text \<open>Draws under which only the coffee break happens, for 75 seconds.\<close>

definition coffeeDraws :: micro_draws where
  "coffeeDraws = \<lparr>thinkingChance = 9 / 10, thinkingAmount = 0, coffeeChance = 1 / 100,
     coffeeAmount = 1 / 2, phoneChance = 9 / 10, phoneAmount = 0\<rparr>"

text \<open>
  The initial limiter after ten recorded failures followed by ten recorded successes, and
  the same history at a base delay of 3 seconds.
\<close>

definition tenFailuresThenTenSuccesses :: rate_limiter where
  "tenFailuresThenTenSuccesses =
     foldl (\<lambda>rl t. recordSuccess t rl)
       (foldl (\<lambda>rl t. recordFailure t ''blocked'' rl) newAdaptiveRateLimiter
          [1000, 2000, 3000, 4000, 5000, 6000, 7000, 8000, 9000, 10000])
       [11000, 12000, 13000, 14000, 15000, 16000, 17000, 18000, 19000, 20000]"

definition recoveredAtThreeSeconds :: rate_limiter where
  "recoveredAtThreeSeconds = tenFailuresThenTenSuccesses\<lparr>currentDelay := 3000\<rparr>"

section \<open>Properties of proxy rotation\<close>

text \<open>A record in cooldown is never deleted by the filter and its key never passes.\<close>

lemma filterHealthy_cooldown:
  assumes "fs k = Some f" "count f \<ge> MAX_FAILURES_PER_PROXY" "now - lastFailure f < PROXY_COOLDOWN_TIME"
  shows "snd (filterHealthy now fs ps) k = Some f \<and> (\<forall>q \<in> set (fst (filterHealthy now fs ps)). proxyKeyOf q \<noteq> k)"
  using assms
proof (induction ps arbitrary: fs)
  case Nil
  then show ?case by simp
next
  case (Cons p ps)
  show ?case
  proof (cases "proxyKeyOf p = k")
    case True
    then show ?thesis using Cons.prems Cons.IH[of fs, OF Cons.prems]
      by (simp add: Let_def failuresOf_def)
  next
    case False
    have d: "(fs(proxyKeyOf p := None)) k = Some f" using False Cons.prems(1) by simp
    show ?thesis
      using False Cons.IH[of fs, OF Cons.prems] Cons.IH[of "fs(proxyKeyOf p := None)", OF d Cons.prems(2,3)]
      by (simp add: Let_def case_prod_beta del: fun_upd_apply)
  qed
qed

lemma hd_sort_key_mem: "xs \<noteq> [] \<Longrightarrow> hd (sort_key f xs) \<in> set xs"
proof -
  assume "xs \<noteq> []"
  then have "sort_key f xs \<noteq> []" by (metis set_sort set_empty)
  then have "hd (sort_key f xs) \<in> set (sort_key f xs)" by (rule hd_in_set)
  then show ?thesis by simp
qed

lemma filterHealthy_keeps_None: "fs k = None \<Longrightarrow> snd (filterHealthy now fs ps) k = None"
proof (induction ps arbitrary: fs)
  case Nil
  then show ?case by simp
next
  case (Cons p ps)
  have d: "(fs(proxyKeyOf p := None)) k = None" using Cons.prems by simp
  show ?case
    using Cons.IH[of fs, OF Cons.prems] Cons.IH[of "fs(proxyKeyOf p := None)", OF d]
    by (simp add: Let_def case_prod_beta del: fun_upd_apply)
qed

lemma passes_after_delete:
  assumes "\<not> (MAX_FAILURES_PER_PROXY \<le> count (failuresOf fs k) \<and>
       now - lastFailure (failuresOf fs k) < PROXY_COOLDOWN_TIME)"
  shows "\<not> (MAX_FAILURES_PER_PROXY \<le> count (failuresOf (fs(k' := None)) k) \<and>
       now - lastFailure (failuresOf (fs(k' := None)) k) < PROXY_COOLDOWN_TIME)"
  using assms by (simp add: failuresOf_def MAX_FAILURES_PER_PROXY_def)

lemma filterHealthy_passes:
  assumes "p \<in> set ps"
    and "\<not> (MAX_FAILURES_PER_PROXY \<le> count (failuresOf fs (proxyKeyOf p)) \<and>
       now - lastFailure (failuresOf fs (proxyKeyOf p)) < PROXY_COOLDOWN_TIME)"
  shows "p \<in> set (fst (filterHealthy now fs ps))"
  using assms
proof (induction ps arbitrary: fs)
  case Nil
  then show ?case by simp
next
  case (Cons q qs)
  show ?case
  proof (cases "p = q")
    case True
    then show ?thesis using Cons.prems(2)
      by (simp add: Let_def case_prod_beta del: fun_upd_apply)
  next
    case False
    then have mem: "p \<in> set qs" using Cons.prems(1) by simp
    have a: "p \<in> set (fst (filterHealthy now fs qs))"
      by (rule Cons.IH[of fs, OF mem Cons.prems(2)])
    have b: "p \<in> set (fst (filterHealthy now (fs(proxyKeyOf q := None)) qs))"
      by (rule Cons.IH[of "fs(proxyKeyOf q := None)", OF mem passes_after_delete[OF Cons.prems(2)]])
    show ?thesis using a b
      by (simp add: Let_def case_prod_beta del: fun_upd_apply)
  qed
qed

lemma filterHealthy_resets:
  assumes "p \<in> set ps"
    and "MAX_FAILURES_PER_PROXY \<le> count (failuresOf fs (proxyKeyOf p))"
    and "PROXY_COOLDOWN_TIME \<le> now - lastFailure (failuresOf fs (proxyKeyOf p))"
  shows "snd (filterHealthy now fs ps) (proxyKeyOf p) = None"
  using assms
proof (induction ps arbitrary: fs)
  case Nil
  then show ?case by simp
next
  case (Cons q qs)
  show ?case
  proof (cases "proxyKeyOf q = proxyKeyOf p")
    case True
    have gone: "(fs(proxyKeyOf q := None)) (proxyKeyOf p) = None" using True by simp
    have rest: "snd (filterHealthy now (fs(proxyKeyOf q := None)) qs) (proxyKeyOf p) = None"
      by (rule filterHealthy_keeps_None[of "fs(proxyKeyOf q := None)" "proxyKeyOf p", OF gone])
    show ?thesis using True Cons.prems(2,3) rest
      by (simp add: Let_def case_prod_beta del: fun_upd_apply)
  next
    case False
    then have mem: "p \<in> set qs" using Cons.prems(1) by auto
    have same: "failuresOf (fs(proxyKeyOf q := None)) (proxyKeyOf p) = failuresOf fs (proxyKeyOf p)"
      using False by (simp add: failuresOf_def)
    have a: "snd (filterHealthy now fs qs) (proxyKeyOf p) = None"
      by (rule Cons.IH[of fs, OF mem Cons.prems(2,3)])
    have b: "snd (filterHealthy now (fs(proxyKeyOf q := None)) qs) (proxyKeyOf p) = None"
      by (rule Cons.IH[of "fs(proxyKeyOf q := None)", OF mem, unfolded same, OF Cons.prems(2,3)])
    show ?thesis using a b
      by (simp add: Let_def case_prod_beta del: fun_upd_apply)
  qed
qed

lemma report_three_failures:
  assumes "server p \<noteq> []"
  shows "proxyFailures (reportProxyFailure p t3 (reportProxyFailure p t2 (reportProxyFailure p t1 st)))
           (proxyKeyOf p) =
         Some \<lparr>count = count (failuresOf (proxyFailures st) (proxyKeyOf p)) + 3, lastFailure = t3\<rparr>"
  using assms by (simp add: reportProxyFailure_def Let_def failuresOf_def)

text \<open>
  Claim C5 (as amended). Let \<open>p\<close> be an endpoint with a non-empty server address and let no
  environment override be configured. After three \<open>reportProxyFailure\<close> calls on \<open>p\<close>,
  the last at time \<open>t3\<close>: while less than 30 minutes have elapsed since \<open>t3\<close>,
  \<open>selectHealthyProxy\<close> does not return \<open>p\<close>, for any pool class; once 30 minutes or more
  have elapsed and \<open>p\<close> belongs to the requested pool class, \<open>p\<close> passes the health filter
  again, a proxy is selected, and the failure count recorded for \<open>p\<close> after the selection is zero.
\<close>

theorem quarantine_after_three_failures:
  assumes "server p \<noteq> []" and "getEnvironmentProxy env = None"
    and "st3 = reportProxyFailure p t3 (reportProxyFailure p t2 (reportProxyFailure p t1 st))"
  shows "(now - t3 < PROXY_COOLDOWN_TIME \<longrightarrow>
            fst (selectHealthyProxy env pools poolType now st3) \<noteq> Some p)
       \<and> (PROXY_COOLDOWN_TIME \<le> now - t3 \<and> p \<in> set (availableProxies pools poolType) \<longrightarrow>
            p \<in> set (fst (filterHealthy now (proxyFailures st3) (availableProxies pools poolType)))
          \<and> fst (selectHealthyProxy env pools poolType now st3) \<noteq> None
          \<and> count (failuresOf (proxyFailures (snd (selectHealthyProxy env pools poolType now st3)))
                 (proxyKeyOf p)) = 0)"
proof -
  let ?k = "proxyKeyOf p"
  let ?f = "\<lparr>count = count (failuresOf (proxyFailures st) ?k) + 3, lastFailure = t3\<rparr>"
  let ?av = "availableProxies pools poolType"
  let ?fh = "filterHealthy now (proxyFailures st3) ?av"
  have rec: "proxyFailures st3 ?k = Some ?f"
    unfolding assms(3) by (rule report_three_failures[OF assms(1)])
  have cnt: "MAX_FAILURES_PER_PROXY \<le> count ?f"
    by (simp add: MAX_FAILURES_PER_PROXY_def)
  have fo: "failuresOf (proxyFailures st3) ?k = ?f"
    using rec by (simp add: failuresOf_def)
  have sel_mem: "fst (selectHealthyProxy env pools poolType now st3) = Some q \<Longrightarrow> q \<in> set (fst ?fh)" for q
    using assms(2) hd_sort_key_mem[of "fst ?fh"]
    by (auto simp: selectHealthyProxy_def Let_def case_prod_beta split: if_splits)
  have part1: "fst (selectHealthyProxy env pools poolType now st3) \<noteq> Some p"
    if cool: "now - t3 < PROXY_COOLDOWN_TIME"
  proof
    assume "fst (selectHealthyProxy env pools poolType now st3) = Some p"
    then have "p \<in> set (fst ?fh)" by (rule sel_mem)
    moreover have "\<forall>q \<in> set (fst ?fh). proxyKeyOf q \<noteq> ?k"
      using filterHealthy_cooldown[of "proxyFailures st3" ?k ?f now ?av] rec cnt cool by simp
    ultimately show False by blast
  qed
  have part2: "p \<in> set (fst ?fh) \<and> fst (selectHealthyProxy env pools poolType now st3) \<noteq> None
      \<and> count (failuresOf (proxyFailures (snd (selectHealthyProxy env pools poolType now st3))) ?k) = 0"
    if over: "PROXY_COOLDOWN_TIME \<le> now - t3" and mem: "p \<in> set ?av"
  proof -
    have healthy: "p \<in> set (fst ?fh)"
      by (rule filterHealthy_passes[OF mem]) (use over fo in simp)
    have reset: "snd ?fh ?k = None"
      by (rule filterHealthy_resets[OF mem]) (use over fo cnt in simp_all)
    have ne: "?av \<noteq> []" "fst ?fh \<noteq> []" using mem healthy by auto
    have sel: "fst (selectHealthyProxy env pools poolType now st3) \<noteq> None"
      using assms(2) ne by (simp add: selectHealthyProxy_def Let_def case_prod_beta)
    have st: "proxyFailures (snd (selectHealthyProxy env pools poolType now st3)) = snd ?fh"
      using assms(2) ne by (simp add: selectHealthyProxy_def Let_def case_prod_beta)
    show ?thesis using healthy sel reset by (simp add: st failuresOf_def)
  qed
  show ?thesis using part1 part2 by blast
qed

text \<open>The theorem at the first residential proxy of the shipped pool, one second and
  thirty minutes after its third failure.\<close>

theorem quarantine_after_three_failures_witness:
  "fst (selectHealthyProxy noProxyEnv proxyPools ''any'' 4000 (failedThrice proxy1)) \<noteq> Some proxy1
   \<and> proxy1 \<in> set (fst (filterHealthy 1803000 (proxyFailures (failedThrice proxy1))
                       (availableProxies proxyPools ''any'')))
   \<and> fst (selectHealthyProxy noProxyEnv proxyPools ''any'' 1803000 (failedThrice proxy1)) \<noteq> None
   \<and> count (failuresOf (proxyFailures (snd (selectHealthyProxy noProxyEnv proxyPools ''any'' 1803000
        (failedThrice proxy1)))) (proxyKeyOf proxy1)) = 0"
proof -
  have h1: "server proxy1 \<noteq> []" by (simp add: proxy1_def)
  have h2: "getEnvironmentProxy noProxyEnv = None"
    by (simp add: getEnvironmentProxy_def noProxyEnv_def)
  have h3: "failedThrice proxy1 = reportProxyFailure proxy1 3000 (reportProxyFailure proxy1 2000
     (reportProxyFailure proxy1 1000 initialProxyState))" by (simp add: failedThrice_def)
  have c1: "(4000::int) - 3000 < PROXY_COOLDOWN_TIME" by (simp add: PROXY_COOLDOWN_TIME_def)
  have c2: "PROXY_COOLDOWN_TIME \<le> (1803000::int) - 3000" by (simp add: PROXY_COOLDOWN_TIME_def)
  have c3: "proxy1 \<in> set (availableProxies proxyPools ''any'')"
    by (simp add: availableProxies_def proxyPools_def proxy1_def)
  show ?thesis
    using quarantine_after_three_failures[OF h1 h2 h3, of 4000 proxyPools "''any''"]
      quarantine_after_three_failures[OF h1 h2 h3, of 1803000 proxyPools "''any''"] c1 c2 c3
    by blast
qed

text \<open>
  Claim C5 as stated fails for the environment-override endpoint: with \<open>PROXY_URL\<close> set,
  three failures reported on that endpoint are recorded, and one millisecond after the third
  \<open>selectHealthyProxy\<close> still returns it.
\<close>

theorem environment_override_ignores_quarantine:
  "getEnvironmentProxy someProxyEnv = Some envProxy
   \<and> count (failuresOf (proxyFailures (failedThrice envProxy)) (proxyKeyOf envProxy)) = 3
   \<and> lastFailure (failuresOf (proxyFailures (failedThrice envProxy)) (proxyKeyOf envProxy)) = 3000
   \<and> (3001::int) - 3000 < PROXY_COOLDOWN_TIME
   \<and> fst (selectHealthyProxy someProxyEnv proxyPools ''any'' 3001 (failedThrice envProxy)) = Some envProxy"
  by (simp add: getEnvironmentProxy_def someProxyEnv_def envProxy_def failedThrice_def
      reportProxyFailure_def failuresOf_def proxyKeyOf_def initialProxyState_def
      PROXY_COOLDOWN_TIME_def selectHealthyProxy_def Let_def)

section \<open>Properties of result extraction\<close>










section \<open>Properties of the rate limiters\<close>

text \<open>
  Claim C1 (as amended). In the scraper's \<open>searchGoogle\<close>, for every configured
  \<open>maxRequestsPerMinute = N\<close>: an attempt begun while \<open>N\<close> (or more) timestamps lie inside
  the rolling 60-second window is refused with the \<open>Rate limit exceeded\<close> error and records
  nothing; and for \<open>N \<ge> 1\<close> an attempt made after the window has fully elapsed proceeds
  to the browser session, without waiting, and is recorded. In the adaptive limiter's
  \<open>waitForNextRequest\<close> an attempt begun with the window full is not refused: the call
  sleeps a fixed 60 seconds and returns normally, recording nothing.
\<close>

theorem rate_limit_refusal_and_delay:
  "(maxRequestsPerMinute rt \<le> length (filter (\<lambda>timestamp. timestamp > now - 60000) (requests rt)) \<longrightarrow>
      fst (searchGoogle now rt run limit) = Inl RATE_LIMIT_MESSAGE
      \<and> requests (snd (searchGoogle now rt run limit)) =
          filter (\<lambda>timestamp. timestamp > now - 60000) (requests rt))
   \<and> (0 < maxRequestsPerMinute rt \<and> (\<forall>timestamp \<in> set (requests rt). timestamp \<le> now - 60000) \<longrightarrow>
      fst (searchGoogle now rt run limit) = runGoogleSearch run limit
      \<and> requests (snd (searchGoogle now rt run limit)) = [now])
   \<and> (arl_maxRequestsPerMinute rl \<le>
        length (filter (\<lambda>timestamp. timestamp > t - 60000) (arl_requests rl)) \<longrightarrow>
      waitForNextRequest t hour dayOfWeek random d rl =
        (Inr (), 60000,
         rl\<lparr>arl_requests := filter (\<lambda>timestamp. timestamp > t - 60000) (arl_requests rl)\<rparr>))"
proof (intro conjI impI)
  assume full: "maxRequestsPerMinute rt \<le> length (filter (\<lambda>timestamp. timestamp > now - 60000) (requests rt))"
  then show "fst (searchGoogle now rt run limit) = Inl RATE_LIMIT_MESSAGE"
    by (simp add: searchGoogle_def canMakeRequest_def Let_def)
  from full show "requests (snd (searchGoogle now rt run limit)) =
          filter (\<lambda>timestamp. timestamp > now - 60000) (requests rt)"
    by (simp add: searchGoogle_def canMakeRequest_def Let_def)
next
  assume a: "0 < maxRequestsPerMinute rt \<and> (\<forall>timestamp \<in> set (requests rt). timestamp \<le> now - 60000)"
  then have empty: "filter (\<lambda>timestamp. timestamp > now - 60000) (requests rt) = []"
    by (auto simp: filter_empty_conv)
  have nowait: "getWaitTime now (rt\<lparr>requests := []\<rparr>) = 0"
    by (simp add: getWaitTime_def getLastRequestTime_def)
  show "fst (searchGoogle now rt run limit) = runGoogleSearch run limit"
    using a empty by (simp add: searchGoogle_def canMakeRequest_def Let_def)
  show "requests (snd (searchGoogle now rt run limit)) = [now]"
    using a empty nowait by (simp add: searchGoogle_def canMakeRequest_def Let_def addRequest_def)
next
  assume "arl_maxRequestsPerMinute rl \<le>
        length (filter (\<lambda>timestamp. timestamp > t - 60000) (arl_requests rl))"
  then show "waitForNextRequest t hour dayOfWeek random d rl =
        (Inr (), 60000,
         rl\<lparr>arl_requests := filter (\<lambda>timestamp. timestamp > t - 60000) (arl_requests rl)\<rparr>)"
    by (simp add: waitForNextRequest_def arl_canMakeRequest_def Let_def)
qed

text \<open>The production tracker (one request per minute) 20 and 60 seconds after a request,
  and the adaptive limiter holding three recent requests.\<close>

theorem rate_limit_refusal_and_delay_witness:
  "fst (searchGoogle 50000 ((newRequestTracker (getCurrentConfig_rateLimit True))\<lparr>requests := [30000]\<rparr>)
         emptyRun 5) = Inl RATE_LIMIT_MESSAGE
   \<and> fst (searchGoogle 90000 ((newRequestTracker (getCurrentConfig_rateLimit True))\<lparr>requests := [30000]\<rparr>)
         emptyRun 5) = runGoogleSearch emptyRun 5
   \<and> fst (waitForNextRequest 4000 10 2 (1 / 2) quietDraws busyLimiter) = Inr ()"
proof -
  let ?rt = "(newRequestTracker (getCurrentConfig_rateLimit True))\<lparr>requests := [30000]\<rparr>"
  have h1: "maxRequestsPerMinute ?rt \<le> length (filter (\<lambda>timestamp. timestamp > 50000 - 60000) (requests ?rt))"
    by (simp add: newRequestTracker_def getCurrentConfig_rateLimit_def)
  have h2: "0 < maxRequestsPerMinute ?rt \<and> (\<forall>timestamp \<in> set (requests ?rt). timestamp \<le> 90000 - 60000)"
    by (simp add: newRequestTracker_def getCurrentConfig_rateLimit_def)
  have h3: "arl_maxRequestsPerMinute busyLimiter \<le>
        length (filter (\<lambda>timestamp. timestamp > 4000 - 60000) (arl_requests busyLimiter))"
    by (simp add: busyLimiter_def newAdaptiveRateLimiter_def)
  show ?thesis
    using rate_limit_refusal_and_delay[of ?rt 50000 emptyRun 5 busyLimiter 4000 10 2 "1 / 2" quietDraws]
      rate_limit_refusal_and_delay[of ?rt 90000 emptyRun 5 busyLimiter 4000 10 2 "1 / 2" quietDraws]
      h1 h2 h3
    by simp
qed

text \<open>
  Claim C1 as stated fails on the adaptive limiter: with its limit of 3 and three timestamps
  inside the window, the fourth attempt through the enhanced scraper is not refused. The wait
  resolves without an error after 60 seconds and the search goes on to query the API.
\<close>

theorem adaptive_limiter_delays_silently:
  "arl_maxRequestsPerMinute busyLimiter = 3
   \<and> length (filter (\<lambda>timestamp. timestamp > 4000 - 60000) (arl_requests busyLimiter)) = 3
   \<and> fst (waitForNextRequest 4000 10 2 (1 / 2) quietDraws busyLimiter) = Inr ()
   \<and> er_slept (enhanced_searchGoogle True 4000 10 2 (1 / 2) quietDraws busyLimiter
        ''Mon Jan 01 2024'' oneItemReply configuredApi ''query'' 5) = 60000
   \<and> er_outcome (enhanced_searchGoogle True 4000 10 2 (1 / 2) quietDraws busyLimiter
        ''Mon Jan 01 2024'' oneItemReply configuredApi ''query'' 5) =
       Inr \<lparr>es_results = [formatItem oneItem 0], es_searchEngine = ''Google Enhanced API'',
            es_source = ''enhanced_api_scraping''\<rparr>"
  by (simp add: busyLimiter_def newAdaptiveRateLimiter_def waitForNextRequest_def
      arl_canMakeRequest_def enhanced_searchGoogle_def Let_def configuredApi_def
      newGoogleSearchAPI_def isConfigured_def truthy_def isWithinLimits_def api_search_def
      oneItemReply_def formatResults_def)

section \<open>Properties of the adaptive delay\<close>

lemma calculateHumanDelay_lower: "minDelay rl \<le> calculateHumanDelay hour dayOfWeek random rl"
  by (simp add: calculateHumanDelay_def Let_def)

lemma calculateHumanDelay_upper:
  "minDelay rl \<le> maxDelay rl \<Longrightarrow> calculateHumanDelay hour dayOfWeek random rl \<le> maxDelay rl"
  by (simp add: calculateHumanDelay_def Let_def)

lemma addMicroDelays_bounds:
  assumes "0 \<le> thinkingAmount d" "thinkingAmount d < 1" "0 \<le> coffeeAmount d" "coffeeAmount d < 1"
    "0 \<le> phoneAmount d" "phoneAmount d < 1"
  shows "0 \<le> addMicroDelays d \<and> addMicroDelays d \<le> 122000"
  using assms by (simp add: addMicroDelays_def Let_def)

text \<open>
  Claim C9 (as amended). The delay returned by \<open>getNextDelay\<close> is the human delay,
  which is clamped to \<open>[minDelay, maxDelay]\<close>, plus the micro-pauses, which are added
  after the clamp. With pause lengths drawn from \<open>[0, 1)\<close>: the returned delay is at least
  \<open>minDelay\<close>; when \<open>minDelay \<le> maxDelay\<close> it is at most \<open>maxDelay\<close> plus 122 seconds (the
  three pauses last at most 7, 90 and 25 seconds); and it stays within
  \<open>[minDelay, maxDelay]\<close> when no micro-pause is drawn.
\<close>

theorem next_delay_bounds:
  assumes "0 \<le> thinkingAmount d \<and> thinkingAmount d < 1"
    and "0 \<le> coffeeAmount d \<and> coffeeAmount d < 1"
    and "0 \<le> phoneAmount d \<and> phoneAmount d < 1"
  shows "getNextDelay hour dayOfWeek random d rl
           = calculateHumanDelay hour dayOfWeek random rl + addMicroDelays d
    \<and> minDelay rl \<le> getNextDelay hour dayOfWeek random d rl
    \<and> (minDelay rl \<le> maxDelay rl \<longrightarrow>
          calculateHumanDelay hour dayOfWeek random rl \<le> maxDelay rl
          \<and> getNextDelay hour dayOfWeek random d rl \<le> maxDelay rl + 122000)
    \<and> (3 / 10 \<le> thinkingChance d \<and> 5 / 100 \<le> coffeeChance d \<and> 1 / 10 \<le> phoneChance d
          \<and> minDelay rl \<le> maxDelay rl \<longrightarrow>
          getNextDelay hour dayOfWeek random d rl \<le> maxDelay rl)"
proof -
  have eq: "getNextDelay hour dayOfWeek random d rl
           = calculateHumanDelay hour dayOfWeek random rl + addMicroDelays d"
    by (simp add: getNextDelay_def Let_def)
  have mb: "0 \<le> addMicroDelays d \<and> addMicroDelays d \<le> 122000"
    using assms addMicroDelays_bounds by blast
  have lo: "minDelay rl \<le> getNextDelay hour dayOfWeek random d rl"
    using calculateHumanDelay_lower[of rl hour dayOfWeek random] mb eq by linarith
  have up: "calculateHumanDelay hour dayOfWeek random rl \<le> maxDelay rl
          \<and> getNextDelay hour dayOfWeek random d rl \<le> maxDelay rl + 122000"
    if "minDelay rl \<le> maxDelay rl"
    using calculateHumanDelay_upper[OF that, of hour dayOfWeek random] mb eq by linarith
  have none: "getNextDelay hour dayOfWeek random d rl \<le> maxDelay rl"
    if "3 / 10 \<le> thinkingChance d \<and> 5 / 100 \<le> coffeeChance d \<and> 1 / 10 \<le> phoneChance d
          \<and> minDelay rl \<le> maxDelay rl"
  proof -
    have "addMicroDelays d = 0" using that by (simp add: addMicroDelays_def Let_def)
    then show ?thesis using that calculateHumanDelay_upper[of rl hour dayOfWeek random] eq by simp
  qed
  show ?thesis using eq lo up none by blast
qed

text \<open>The initial limiter on a Tuesday at 10 o'clock, with and without a coffee break.\<close>

theorem next_delay_bounds_witness:
  "getNextDelay 10 2 (1 / 2) coffeeDraws newAdaptiveRateLimiter
     = calculateHumanDelay 10 2 (1 / 2) newAdaptiveRateLimiter + addMicroDelays coffeeDraws
   \<and> minDelay newAdaptiveRateLimiter \<le> getNextDelay 10 2 (1 / 2) coffeeDraws newAdaptiveRateLimiter
   \<and> getNextDelay 10 2 (1 / 2) coffeeDraws newAdaptiveRateLimiter \<le> maxDelay newAdaptiveRateLimiter + 122000
   \<and> getNextDelay 10 2 (1 / 2) quietDraws newAdaptiveRateLimiter \<le> maxDelay newAdaptiveRateLimiter"
proof -
  have h1: "0 \<le> thinkingAmount coffeeDraws \<and> thinkingAmount coffeeDraws < 1"
    and h2: "0 \<le> coffeeAmount coffeeDraws \<and> coffeeAmount coffeeDraws < 1"
    and h3: "0 \<le> phoneAmount coffeeDraws \<and> phoneAmount coffeeDraws < 1"
    by (simp_all add: coffeeDraws_def)
  have q1: "0 \<le> thinkingAmount quietDraws \<and> thinkingAmount quietDraws < 1"
    and q2: "0 \<le> coffeeAmount quietDraws \<and> coffeeAmount quietDraws < 1"
    and q3: "0 \<le> phoneAmount quietDraws \<and> phoneAmount quietDraws < 1"
    by (simp_all add: quietDraws_def)
  have m: "minDelay newAdaptiveRateLimiter \<le> maxDelay newAdaptiveRateLimiter"
    by (simp add: newAdaptiveRateLimiter_def)
  have q: "3 / 10 \<le> thinkingChance quietDraws \<and> 5 / 100 \<le> coffeeChance quietDraws
      \<and> 1 / 10 \<le> phoneChance quietDraws"
    by (simp add: quietDraws_def)
  show ?thesis
    using next_delay_bounds[OF h1 h2 h3, of 10 2 "1 / 2" newAdaptiveRateLimiter]
      next_delay_bounds[OF q1 q2 q3, of 10 2 "1 / 2" newAdaptiveRateLimiter] m q
    by blast
qed

text \<open>
  Claim C9 as stated fails as soon as a micro-pause is drawn: for the initial limiter on a
  Tuesday at 10 o'clock the clamped human delay is 2 seconds, a coffee break adds 75
  seconds, and the returned 77 seconds exceed \<open>maxDelay\<close> (60 seconds).
\<close>

theorem micro_pause_exceeds_max_delay:
  "calculateHumanDelay 10 2 (1 / 2) newAdaptiveRateLimiter = 2000
   \<and> addMicroDelays coffeeDraws = 75000
   \<and> getNextDelay 10 2 (1 / 2) coffeeDraws newAdaptiveRateLimiter = 77000
   \<and> maxDelay newAdaptiveRateLimiter = 60000
   \<and> \<not> getNextDelay 10 2 (1 / 2) coffeeDraws newAdaptiveRateLimiter \<le> maxDelay newAdaptiveRateLimiter"
  by (simp add: getNextDelay_def calculateHumanDelay_def addMicroDelays_def circadianMultiplier_def
      newAdaptiveRateLimiter_def coffeeDraws_def Let_def)

section \<open>Properties of the delay adaptation\<close>

text \<open>The histories that ten \<open>recordFailure\<close> calls followed by ten \<open>recordSuccess\<close>
  calls leave in the initial limiter.\<close>

lemma history_after_recovery:
  "successHistory tenFailuresThenTenSuccesses =
     [11000, 12000, 13000, 14000, 15000, 16000, 17000, 18000, 19000, 20000]
   \<and> failureHistory tenFailuresThenTenSuccesses =
     [(1000, ''blocked''), (2000, ''blocked''), (3000, ''blocked''), (4000, ''blocked''),
      (5000, ''blocked''), (6000, ''blocked''), (7000, ''blocked''), (8000, ''blocked''),
      (9000, ''blocked''), (10000, ''blocked'')]
   \<and> currentDelay tenFailuresThenTenSuccesses = 2000
   \<and> minDelay tenFailuresThenTenSuccesses = 2000
   \<and> maxDelay tenFailuresThenTenSuccesses = 60000
   \<and> adaptiveEnabled tenFailuresThenTenSuccesses"
  by (simp add: tenFailuresThenTenSuccesses_def recordSuccess_def recordFailure_def
      newAdaptiveRateLimiter_def Let_def)

text \<open>
  Claim C7 at a history of ten failures followed by ten successes. The last ten recorded
  outcomes are all successes, a rate of 100 percent: by the claim a base delay of 3 seconds
  is multiplied by 0.8 to 2.4 seconds, and a base delay at \<open>minDelay\<close> stays unchanged.
  \<open>adaptDelayBasedOnHistory\<close> divides the last ten successes by the last ten successes
  plus the last ten failures, a rate of 50 percent, and multiplies the delay by 1.5: 3
  seconds become 4.5 seconds and 2 seconds become 3 seconds.
\<close>

theorem separate_histories_hide_recovery:
  "successRate recoveredAtThreeSeconds = Some (1 / 2)
   \<and> currentDelay (adaptDelayBasedOnHistory recoveredAtThreeSeconds) = 4500
   \<and> spec_successRateOverLastOutcomes recoveredAtThreeSeconds = Some 1
   \<and> currentDelay (spec_recordOutcomeAdjustment recoveredAtThreeSeconds) = 2400
   \<and> currentDelay (adaptDelayBasedOnHistory tenFailuresThenTenSuccesses) = 3000
   \<and> currentDelay (spec_recordOutcomeAdjustment tenFailuresThenTenSuccesses) = 2000"
proof -
  note h = history_after_recovery
  have r1: "successRate recoveredAtThreeSeconds = Some (1 / 2)"
    using h by (simp add: successRate_def recoveredAtThreeSeconds_def sliceLast_def Let_def)
  have r0: "successRate tenFailuresThenTenSuccesses = Some (1 / 2)"
    using h by (simp add: successRate_def sliceLast_def Let_def)
  have a1: "currentDelay (adaptDelayBasedOnHistory recoveredAtThreeSeconds) = 4500"
    using h by (simp add: adaptDelayBasedOnHistory_def r1) (simp add: recoveredAtThreeSeconds_def)
  have a0: "currentDelay (adaptDelayBasedOnHistory tenFailuresThenTenSuccesses) = 3000"
    using h by (simp add: adaptDelayBasedOnHistory_def r0)
  have s0: "spec_successRateOverLastOutcomes tenFailuresThenTenSuccesses = Some 1"
    using h by (simp add: spec_successRateOverLastOutcomes_def sliceLast_def Let_def)
  have s1: "spec_successRateOverLastOutcomes recoveredAtThreeSeconds = Some 1"
    using h by (simp add: spec_successRateOverLastOutcomes_def recoveredAtThreeSeconds_def
        sliceLast_def Let_def)
  have b1: "currentDelay (spec_recordOutcomeAdjustment recoveredAtThreeSeconds) = 2400"
    using h by (simp add: spec_recordOutcomeAdjustment_def s1) (simp add: recoveredAtThreeSeconds_def)
  have b0: "currentDelay (spec_recordOutcomeAdjustment tenFailuresThenTenSuccesses) = 2000"
    using h by (simp add: spec_recordOutcomeAdjustment_def s0)
  show ?thesis using r1 a1 s1 b1 a0 b0 by blast
qed

section \<open>Properties of the fallback chains\<close>

















section \<open>Properties of the API client\<close>








section \<open>Properties of content extraction\<close>

text \<open>
  Claim C8 (as amended). For every extraction request whose URL is classified as platform
  \<open>linkedin\<close>, requiring authentication, with no public-content exception,
  \<open>extractContent\<close> returns the authentication-required advisory with zero browser
  launches and zero page navigations. For a URL of any other platform the browser is
  launched, and the page is navigated to when the launch succeeds; this includes the URLs
  classified as \<open>facebook\<close>, which require authentication and never have a public-content
  exception.
\<close>

theorem linkedin_short_circuit:
  assumes "parseURL url = Some urlObj"
  shows "(platform (detectPlatform urlObj) = ''linkedin'' \<and> requiresAuth (detectPlatform urlObj)
          \<and> \<not> publicContentPossible (detectPlatform urlObj) \<longrightarrow>
          snd (extractContent parseURL env url fullPage includeImages) = \<lparr>launches = 0, navigations = 0\<rparr>
          \<and> (\<exists>c. fst (extractContent parseURL env url fullPage includeImages) = Inr c
                \<and> c_extractionType c = ''authentication-required''
                \<and> c_title c = ''LinkedIn Content Requires Authentication''
                \<and> c_platform c = Some ''linkedin''))
       \<and> (platform (detectPlatform urlObj) \<noteq> ''linkedin'' \<longrightarrow>
          launches (snd (extractContent parseURL env url fullPage includeImages)) = 1)
       \<and> (platform (detectPlatform urlObj) \<noteq> ''linkedin'' \<and> be_launchError env = None \<longrightarrow>
          navigations (snd (extractContent parseURL env url fullPage includeImages)) = 1)"
proof -
  let ?r = "extractContent parseURL env url fullPage includeImages"
  have p1: "snd ?r = \<lparr>launches = 0, navigations = 0\<rparr>
          \<and> (\<exists>c. fst ?r = Inr c
                \<and> c_extractionType c = ''authentication-required''
                \<and> c_title c = ''LinkedIn Content Requires Authentication''
                \<and> c_platform c = Some ''linkedin'')"
    if "platform (detectPlatform urlObj) = ''linkedin'' \<and> requiresAuth (detectPlatform urlObj)
          \<and> \<not> publicContentPossible (detectPlatform urlObj)"
    using that assms by (simp add: extractContent_def Let_def)
  have p2: "launches (snd ?r) = 1" if "platform (detectPlatform urlObj) \<noteq> ''linkedin''"
    using that assms
    by (simp add: extractContent_def Let_def split: option.splits sum.splits)
  have p3: "navigations (snd ?r) = 1"
    if "platform (detectPlatform urlObj) \<noteq> ''linkedin'' \<and> be_launchError env = None"
    using that assms
    by (simp add: extractContent_def Let_def split: option.splits sum.splits)
  show ?thesis using p1 p2 p3 by blast
qed

lemma detect_profile:
  "detectPlatform \<lparr>u_hostname = ''linkedin.com'', u_pathname = ''/in/username''\<rparr> =
     \<lparr>platform = ''linkedin'', requiresAuth = True, publicContentPossible = False,
      contentType = Some ''profile''\<rparr>"
  by (simp add: detectPlatform_def Let_def toLowerCase_def toLowerChar_def)

lemma detect_facebook:
  "detectPlatform \<lparr>u_hostname = ''www.facebook.com'', u_pathname = ''/someone''\<rparr> =
     \<lparr>platform = ''facebook'', requiresAuth = True, publicContentPossible = False,
      contentType = None\<rparr>"
  by (simp add: detectPlatform_def Let_def toLowerCase_def toLowerChar_def)

text \<open>A LinkedIn profile URL and a Facebook URL.\<close>

theorem linkedin_short_circuit_witness:
  "demoParseURL ''https://linkedin.com/in/username''
     = Some \<lparr>u_hostname = ''linkedin.com'', u_pathname = ''/in/username''\<rparr>
   \<and> snd (extractContent demoParseURL workingBrowser ''https://linkedin.com/in/username'' False True)
     = \<lparr>launches = 0, navigations = 0\<rparr>
   \<and> launches (snd (extractContent demoParseURL workingBrowser ''https://www.facebook.com/someone''
       False True)) = 1"
proof -
  have h1: "demoParseURL ''https://linkedin.com/in/username''
     = Some \<lparr>u_hostname = ''linkedin.com'', u_pathname = ''/in/username''\<rparr>"
    by (simp add: demoParseURL_def)
  have h2: "demoParseURL ''https://www.facebook.com/someone''
     = Some \<lparr>u_hostname = ''www.facebook.com'', u_pathname = ''/someone''\<rparr>"
    by (simp add: demoParseURL_def)
  have c1: "platform (detectPlatform \<lparr>u_hostname = ''linkedin.com'', u_pathname = ''/in/username''\<rparr>) = ''linkedin''
      \<and> requiresAuth (detectPlatform \<lparr>u_hostname = ''linkedin.com'', u_pathname = ''/in/username''\<rparr>)
      \<and> \<not> publicContentPossible (detectPlatform \<lparr>u_hostname = ''linkedin.com'', u_pathname = ''/in/username''\<rparr>)"
    by (simp add: detect_profile)
  have c2: "platform (detectPlatform \<lparr>u_hostname = ''www.facebook.com'', u_pathname = ''/someone''\<rparr>) \<noteq> ''linkedin''"
    by (simp add: detect_facebook)
  show ?thesis
    using linkedin_short_circuit[where parseURL = demoParseURL
        and url = "''https://linkedin.com/in/username''"
        and urlObj = "\<lparr>u_hostname = ''linkedin.com'', u_pathname = ''/in/username''\<rparr>"
        and env = workingBrowser and fullPage = False and includeImages = True, OF h1]
      linkedin_short_circuit[where parseURL = demoParseURL
        and url = "''https://www.facebook.com/someone''"
        and urlObj = "\<lparr>u_hostname = ''www.facebook.com'', u_pathname = ''/someone''\<rparr>"
        and env = workingBrowser and fullPage = False and includeImages = True, OF h2]
      h1 c1 c2
    by blast
qed

text \<open>
  Claim C8 as stated fails for a Facebook URL: it is classified as requiring authentication
  with no public-content exception, and \<open>extractContent\<close> launches the browser and
  navigates to it.
\<close>

theorem facebook_is_navigated:
  "demoParseURL ''https://www.facebook.com/someone''
     = Some \<lparr>u_hostname = ''www.facebook.com'', u_pathname = ''/someone''\<rparr>
   \<and> requiresAuth (detectPlatform \<lparr>u_hostname = ''www.facebook.com'', u_pathname = ''/someone''\<rparr>)
   \<and> \<not> publicContentPossible (detectPlatform \<lparr>u_hostname = ''www.facebook.com'', u_pathname = ''/someone''\<rparr>)
   \<and> snd (extractContent demoParseURL workingBrowser ''https://www.facebook.com/someone'' False True)
     = \<lparr>launches = 1, navigations = 1\<rparr>"
proof -
  have h: "demoParseURL ''https://www.facebook.com/someone''
     = Some \<lparr>u_hostname = ''www.facebook.com'', u_pathname = ''/someone''\<rparr>"
    by (simp add: demoParseURL_def)
  have r: "snd (extractContent demoParseURL workingBrowser ''https://www.facebook.com/someone'' False True)
     = \<lparr>launches = 1, navigations = 1\<rparr>"
    by (simp add: extractContent_def h detect_facebook workingBrowser_def loginPage_def Let_def)
  show ?thesis using h r by (simp add: detect_facebook)
qed

text \<open>
  Claim C4 at the pre-navigation short-circuit. For the profile URL of the README's
  example, \<open>extractContent\<close> returns the authentication-required advisory without the
  \<open>loginRequired\<close> flag, and the handler of \<open>GET /extract\<close> answers 200 with neither
  \<open>suggestions\<close> nor \<open>message\<close>. The advisory produced after navigation (a company page
  that shows a login wall) carries the flag and is answered with 422.
\<close>

theorem short_circuit_answers_200:
  "fst (extractContent demoParseURL workingBrowser ''https://linkedin.com/in/username'' False True) =
     Inr \<lparr>c_title = ''LinkedIn Content Requires Authentication'',
          c_markdown = authenticationRequiredMarkdown ''https://linkedin.com/in/username'',
          c_url = ''https://linkedin.com/in/username'', c_extractionType = ''authentication-required'',
          c_platform = Some ''linkedin'', c_loginRequired = False, c_isEmpty = False\<rparr>
   \<and> extract_handler demoParseURL workingBrowser ''2024-01-01T00:00:00.000Z'' profileQuery =
     \<lparr>status = 200,
      body = ContentBody ''https://linkedin.com/in/username''
        \<lparr>c_title = ''LinkedIn Content Requires Authentication'',
         c_markdown = authenticationRequiredMarkdown ''https://linkedin.com/in/username'',
         c_url = ''https://linkedin.com/in/username'', c_extractionType = ''authentication-required'',
         c_platform = Some ''linkedin'', c_loginRequired = False, c_isEmpty = False\<rparr>
        ''2024-01-01T00:00:00.000Z'' None None\<rparr>
   \<and> status (extract_handler demoParseURL workingBrowser ''2024-01-01T00:00:00.000Z'' companyQuery) = 422"
proof -
  have h: "demoParseURL ''https://linkedin.com/in/username''
     = Some \<lparr>u_hostname = ''linkedin.com'', u_pathname = ''/in/username''\<rparr>"
    by (simp add: demoParseURL_def)
  have e: "fst (extractContent demoParseURL workingBrowser ''https://linkedin.com/in/username'' False True) =
     Inr \<lparr>c_title = ''LinkedIn Content Requires Authentication'',
          c_markdown = authenticationRequiredMarkdown ''https://linkedin.com/in/username'',
          c_url = ''https://linkedin.com/in/username'', c_extractionType = ''authentication-required'',
          c_platform = Some ''linkedin'', c_loginRequired = False, c_isEmpty = False\<rparr>"
    by (simp add: extractContent_def h detect_profile Let_def)
  have r: "extract_handler demoParseURL workingBrowser ''2024-01-01T00:00:00.000Z'' profileQuery =
     \<lparr>status = 200,
      body = ContentBody ''https://linkedin.com/in/username''
        \<lparr>c_title = ''LinkedIn Content Requires Authentication'',
         c_markdown = authenticationRequiredMarkdown ''https://linkedin.com/in/username'',
         c_url = ''https://linkedin.com/in/username'', c_extractionType = ''authentication-required'',
         c_platform = Some ''linkedin'', c_loginRequired = False, c_isEmpty = False\<rparr>
        ''2024-01-01T00:00:00.000Z'' None None\<rparr>"
    by (simp add: extract_handler_def profileQuery_def truthy_def orElse_def h e Let_def)
  have hc: "demoParseURL ''https://www.linkedin.com/company/acme/''
     = Some \<lparr>u_hostname = ''www.linkedin.com'', u_pathname = ''/company/acme/''\<rparr>"
    by (simp add: demoParseURL_def)
  have dc: "platform (detectPlatform \<lparr>u_hostname = ''www.linkedin.com'', u_pathname = ''/company/acme/''\<rparr>) = ''linkedin''
     \<and> publicContentPossible (detectPlatform \<lparr>u_hostname = ''www.linkedin.com'', u_pathname = ''/company/acme/''\<rparr>)"
    by (simp add: detectPlatform_def Let_def toLowerCase_def toLowerChar_def)
  have ec: "fst (extractContent demoParseURL workingBrowser
         ''https://www.linkedin.com/company/acme/'' False True) =
      Inr \<lparr>c_title = ''Sign Up'',
           c_markdown = authenticationBlockedMarkdown ''https://www.linkedin.com/company/acme/''
                          ''Sign Up'' 19 [],
           c_url = ''https://www.linkedin.com/company/acme/'',
           c_extractionType = ''authentication-blocked'',
           c_platform = Some ''linkedin'', c_loginRequired = True, c_isEmpty = False\<rparr>"
    using dc
    by (simp add: extractContent_def hc workingBrowser_def loginPage_def Let_def
        trim_def isWhiteSpace_def eval_nat_numeral)
  have rc: "status (extract_handler demoParseURL workingBrowser ''2024-01-01T00:00:00.000Z'' companyQuery) = 422"
    by (simp add: extract_handler_def companyQuery_def truthy_def orElse_def hc ec Let_def)
  show ?thesis using e r rc by blast
qed

end
